theory Spec2Isabelle
  imports Main "HOL-Library.Sublist" "HOL-Library.List_Lexorder"
begin

section \<open>Python strings\<close>

text \<open>
  A Python \<^verbatim>\<open>str\<close> is a sequence of Unicode code points. The texts of this program are
  Cyrillic, so a string is modelled as the list of its code points (natural numbers);
  the 8-bit \<^typ>\<open>char\<close> of HOL cannot hold them. String comparison in Python is the
  lexicographic order of the code points, which is the order of \<^typ>\<open>nat list\<close>.
\<close>

type_synonym ustring = "nat list"

text \<open>
  \<^verbatim>\<open>str.isspace\<close> for one code point; \<^verbatim>\<open>str.strip\<close> without argument and the class
  \<^verbatim>\<open>\s\<close> of \<^verbatim>\<open>re\<close> on \<^verbatim>\<open>str\<close> patterns use this same set: U+0009..U+000D,
  U+001C..U+0020, U+0085, U+00A0, U+1680, U+2000..U+200A, U+2028, U+2029, U+202F,
  U+205F, U+3000.
\<close>

definition isspace :: "nat \<Rightarrow> bool" where
  "isspace c \<longleftrightarrow>
     (9 \<le> c \<and> c \<le> 13) \<or> (28 \<le> c \<and> c \<le> 32) \<or> c = 133 \<or> c = 160 \<or> c = 5760 \<or>
     (8192 \<le> c \<and> c \<le> 8202) \<or> c = 8232 \<or> c = 8233 \<or> c = 8239 \<or> c = 8287 \<or> c = 12288"

definition lstrip :: "ustring \<Rightarrow> ustring" where
  "lstrip s = dropWhile isspace s"

definition rstrip :: "ustring \<Rightarrow> ustring" where
  "rstrip s = rev (dropWhile isspace (rev s))"

definition strip :: "ustring \<Rightarrow> ustring" where
  "strip s = rstrip (lstrip s)"

definition startswith :: "ustring \<Rightarrow> ustring \<Rightarrow> bool" where
  "startswith s p \<longleftrightarrow> prefix p s"

text \<open>\<^verbatim>\<open>p in s\<close> on strings: \<open>p\<close> occurs in \<open>s\<close> as a contiguous substring.\<close>

definition contains :: "ustring \<Rightarrow> ustring \<Rightarrow> bool" where
  "contains s p \<longleftrightarrow> sublist p s"

text \<open>
  \<^verbatim>\<open>str.lower\<close>, one code point at a time. The Unicode table is modelled on the blocks
  this program's texts are written in: Basic Latin (U+0000..U+007F, where A..Z are the
  cased letters) and the Cyrillic letters U+0400..U+045F (capitals U+0400..U+042F);
  on these code points \<open>lower_cp\<close> is Python's result. Every other code point is left
  as it is, which is Python's result only where Unicode has no lowercase mapping.
\<close>

definition lower_cp :: "nat \<Rightarrow> nat" where
  "lower_cp c =
     (if 65 \<le> c \<and> c \<le> 90 then c + 32
      else if 1024 \<le> c \<and> c \<le> 1039 then c + 80
      else if 1040 \<le> c \<and> c \<le> 1071 then c + 32
      else c)"

definition lower :: "ustring \<Rightarrow> ustring" where
  "lower s = map lower_cp s"


text \<open>\<^verbatim>\<open>s.replace(ch, "")\<close> for a one-character \<open>ch\<close>.\<close>

definition remove_char :: "nat \<Rightarrow> ustring \<Rightarrow> ustring" where
  "remove_char ch s = filter (\<lambda>c. c \<noteq> ch) s"

section \<open>Regular expressions of the dialog engine\<close>

text \<open>
  \<^verbatim>\<open>LATIN_RE = re.compile(r"[A-Za-z]")\<close>, used only through \<^verbatim>\<open>LATIN_RE.search\<close>:
  some character of the text is an ASCII letter.
\<close>

definition is_latin :: "nat \<Rightarrow> bool" where
  "is_latin c \<longleftrightarrow> (65 \<le> c \<and> c \<le> 90) \<or> (97 \<le> c \<and> c \<le> 122)"

definition LATIN_RE_search :: "ustring \<Rightarrow> bool" where
  "LATIN_RE_search s \<longleftrightarrow> list_ex is_latin s"

text \<open>
  The fragment of regular expressions that \<^verbatim>\<open>SPEAKER_PREFIX_RE\<close> is written in:
  literals (matched ignoring case), greedy \<^verbatim>\<open>\s*\<close>, sequence, alternation and the
  greedy option \<^verbatim>\<open>(?:...)?\<close>.
\<close>

datatype rx = Eps | Lit nat | WsStar | Seq rx rx | Alt rx rx | Opt rx

text \<open>
  Besides the two cases of a letter, \<^verbatim>\<open>re.IGNORECASE\<close> lets a few Cyrillic small
  letters match their historic variants U+1C80..U+1C86.
\<close>

definition ignorecase_variants :: "nat \<Rightarrow> nat list" where
  "ignorecase_variants p =
     (if p = 1074 then [7296] else if p = 1076 then [7297] else if p = 1086 then [7298]
      else if p = 1089 then [7299] else if p = 1090 then [7300, 7301]
      else if p = 1098 then [7302] else [])"

definition lit_matches :: "nat \<Rightarrow> nat \<Rightarrow> bool" where
  "lit_matches p c \<longleftrightarrow>
     lower_cp c = lower_cp p \<or> lower_cp c \<in> set (ignorecase_variants (lower_cp p))"

text \<open>
  The backtracking matcher: \<open>rmatch r s\<close> lists, in the order in which Python's engine
  tries them, the remainders of \<open>s\<close> after each way of matching \<open>r\<close> at the start of
  \<open>s\<close>. The first element is the match that \<^verbatim>\<open>re\<close> reports.
\<close>

fun rmatch :: "rx \<Rightarrow> ustring \<Rightarrow> ustring list" where
  "rmatch Eps s = [s]"
| "rmatch (Lit p) s = (case s of [] \<Rightarrow> [] | c # t \<Rightarrow> if lit_matches p c then [t] else [])"
| "rmatch WsStar s = map (\<lambda>k. drop k s) (rev [0 ..< Suc (length (takeWhile isspace s))])"
| "rmatch (Seq a b) s = concat (map (rmatch b) (rmatch a s))"
| "rmatch (Alt a b) s = rmatch a s @ rmatch b s"
| "rmatch (Opt a) s = rmatch a s @ [s]"

definition lits :: "ustring \<Rightarrow> rx" where
  "lits p = foldr (\<lambda>c r. Seq (Lit c) r) p Eps"

definition seqs :: "rx list \<Rightarrow> rx" where
  "seqs rs = foldr Seq rs Eps"

text \<open>
  \<^verbatim>\<open>pattern.sub("", s)\<close> for a pattern anchored with \<^verbatim>\<open>^\<close> (no MULTILINE): the
  pattern can only match at position 0, so at most one occurrence is removed.
\<close>

definition re_sub_anchored :: "rx \<Rightarrow> ustring \<Rightarrow> ustring" where
  "re_sub_anchored r s = (case rmatch r s of [] \<Rightarrow> s | t # _ \<Rightarrow> t)"

section \<open>dialog\_engine.py: constants\<close>

text \<open>\<^verbatim>\<open>IRINA_NAME\<close>: the expert's display name, "D-r Irina (uchyonyj)" in Cyrillic.\<close>

definition IRINA_NAME :: ustring where
  "IRINA_NAME = [1044, 45, 1088, 32, 1048, 1088, 1080, 1085, 1072, 32, 40, 1091, 1095, 1105,
     1085, 1099, 1081, 41]"

text \<open>The skeptic's name, the literal "D-r Aleksej (skeptik)" of \<^verbatim>\<open>run_dialog\<close>.\<close>

definition ALEXEY_NAME :: ustring where
  "ALEXEY_NAME = [1044, 45, 1088, 32, 1040, 1083, 1077, 1082, 1089, 1077, 1081, 32, 40, 1089,
     1082, 1077, 1087, 1090, 1080, 1082, 41]"

text \<open>\<^verbatim>\<open>IRINA_FIRST_PHRASE\<close>: the mandated opening phrase (31 code points, ends with a full stop).\<close>

definition IRINA_FIRST_PHRASE :: ustring where
  "IRINA_FIRST_PHRASE = [1044, 1072, 1074, 1072, 1081, 32, 1085, 1072, 1095, 1085, 1105, 1084,
     32, 1089, 32, 1089, 1072, 1084, 1086, 1075, 1086, 32, 1087, 1088, 1086, 1089, 1090, 1086,
     1075, 1086, 46]"

text \<open>\<^verbatim>\<open>IRINA_PREFACE\<close>: the fixed preface (25 code points, ends with a full stop).\<close>

definition IRINA_PREFACE :: ustring where
  "IRINA_PREFACE = [1044, 1086, 1073, 1088, 1099, 1081, 32, 1076, 1077, 1085, 1100, 46, 32,
     1044, 1072, 44, 32, 1089, 1087, 1072, 1089, 1080, 1073, 1086, 46]"

text \<open>
  \<^verbatim>\<open>SPEAKER_PREFIX_RE\<close>, compiled with \<^verbatim>\<open>re.IGNORECASE\<close>:
  \<^verbatim>\<open>^\s*(?:D-?r\s*)?(?:Irina|Aleksej)\s*\((?:uchyonyj|skeptik)\)\s*:\s*\<close>
  with the Cyrillic letters of the source.
\<close>

definition SPEAKER_PREFIX_RE :: rx where
  "SPEAKER_PREFIX_RE = seqs
     [WsStar,
      Opt (seqs [Lit 1044, Opt (Lit 45), Lit 1088, WsStar]),
      Alt (lits [1048, 1088, 1080, 1085, 1072]) (lits [1040, 1083, 1077, 1082, 1089, 1077, 1081]),
      WsStar,
      Lit 40,
      Alt (lits [1091, 1095, 1105, 1085, 1099, 1081]) (lits [1089, 1082, 1077, 1087, 1090, 1080, 1082]),
      Lit 41,
      WsStar,
      Lit 58,
      WsStar]"

section \<open>dialog\_engine.py: the text transforms\<close>

definition strip_leading_speaker_prefix :: "ustring \<Rightarrow> ustring" where
  "strip_leading_speaker_prefix reply =
     (let cleaned = lstrip reply;
          cleaned = strip (re_sub_anchored SPEAKER_PREFIX_RE cleaned)
      in cleaned)"

definition enforce_irina_first_phrase :: "ustring \<Rightarrow> ustring" where
  "enforce_irina_first_phrase reply =
     (let cleaned = lstrip reply
      in if startswith cleaned IRINA_FIRST_PHRASE then cleaned
         else strip (IRINA_FIRST_PHRASE @ [32] @ cleaned))"

definition add_irina_preface_if_first_turn :: "ustring \<Rightarrow> ustring" where
  "add_irina_preface_if_first_turn reply =
     (let cleaned = lstrip reply
      in if \<not> startswith cleaned IRINA_FIRST_PHRASE then cleaned
         else if startswith cleaned (IRINA_PREFACE @ [32] @ IRINA_FIRST_PHRASE) then cleaned
         else strip (IRINA_PREFACE @ [32] @ cleaned))"

section \<open>The world outside the program\<close>

text \<open>
  Exceptions are values. \<open>RuntimeError\<close> is the one exception the program raises
  itself (with its message); \<open>CapabilityError\<close> stands for any exception raised
  inside a call of the language-model or text-to-speech client.
\<close>

datatype py_error = RuntimeError ustring | CapabilityError nat

text \<open>
  The message of the \<^verbatim>\<open>RuntimeError\<close> raised when \<^verbatim>\<open>OPENAI_API_KEY\<close> is not set; the
  same literal in \<^verbatim>\<open>dialog_engine.generate_reply\<close> and \<^verbatim>\<open>tts_engine.synthesize_speech\<close>.
\<close>

definition MISSING_KEY_MESSAGE :: ustring where
  "MISSING_KEY_MESSAGE =
    [1053, 1077, 32, 1085, 1072, 1081, 1076, 1077, 1085, 32, 79, 80, 69, 78, 65, 73, 95, 65, 80,
     73, 95, 75, 69, 89, 46, 32, 1057, 1086, 1079, 1076, 1072, 1081, 1090, 1077, 32, 1092, 1072,
     1081, 1083, 32, 46, 101, 110, 118, 32, 1074, 32, 1082, 1086, 1088, 1085, 1077, 32, 1087,
     1088, 1086, 1077, 1082, 1090, 1072, 32, 1080, 32, 1076, 1086, 1073, 1072, 1074, 1100, 1090,
     1077, 32, 1089, 1090, 1088, 1086, 1082, 1091, 32, 79, 80, 69, 78, 65, 73, 95, 65, 80, 73,
     95, 75, 69, 89, 61, 1074, 1072, 1096, 95, 1082, 1083, 1102, 1095, 32, 40, 1080, 1083, 1080,
     32, 1079, 1072, 1076, 1072, 1081, 1090, 1077, 32, 1087, 1077, 1088, 1077, 1084, 1077, 1085,
     1085, 1091, 1102, 32, 1086, 1082, 1088, 1091, 1078, 1077, 1085, 1080, 1103, 32, 79, 80, 69,
     78, 65, 73, 95, 65, 80, 73, 95, 75, 69, 89, 41, 46]"

type_synonym history = "(ustring \<times> ustring) list"

record agent =
  name :: ustring
  system_prompt :: ustring

text \<open>
  A request to \<^verbatim>\<open>client.chat.completions.create\<close>. The messages of a request are
  fixed texts around the values kept here: for a generation request the agent's system
  prompt, the topic line, the history rendered as messages, which of the two user
  instructions is used (the expert's first turn or a continuation) and
  \<^verbatim>\<open>max_tokens\<close>; for a rewrite request the agent's system prompt and the text.
\<close>

datatype chat_request =
    Generate ustring ustring history bool int
  | Rewrite ustring ustring

text \<open>A request to the speech capability: voice, input text, output file name.\<close>

type_synonym tts_request = "ustring \<times> ustring \<times> ustring"

text \<open>
  The state the program works in. \<open>llm\<close> and \<open>tts\<close> are the two opaque capabilities:
  the answer to the \<open>k\<close>-th request issued so far (the content of the first choice, which
  may be \<^verbatim>\<open>None\<close>, or an exception), so that the same request may be answered
  differently each time. The logs record every request issued. \<open>heap\<close> holds the
  Python list objects of type \<^verbatim>\<open>History\<close>, by reference; references below
  \<open>next_ref\<close> are allocated.
\<close>

record world =
  OPENAI_API_KEY :: "ustring option"
  llm :: "nat \<Rightarrow> chat_request \<Rightarrow> py_error + ustring option"
  llm_log :: "chat_request list"
  tts :: "nat \<Rightarrow> tts_request \<Rightarrow> py_error option"
  tts_log :: "tts_request list"
  audio_files :: "ustring list"
  heap :: "nat \<Rightarrow> history"
  next_ref :: nat

text \<open>\<^verbatim>\<open>not os.getenv("OPENAI_API_KEY")\<close>: the variable is unset or empty.\<close>

definition api_key_missing :: "world \<Rightarrow> bool" where
  "api_key_missing w \<longleftrightarrow> (case OPENAI_API_KEY w of None \<Rightarrow> True | Some k \<Rightarrow> k = [])"

text \<open>\<^verbatim>\<open>client.chat.completions.create(...)\<close> followed by \<^verbatim>\<open>resp.choices[0].message.content\<close>.\<close>

definition chat_completion :: "chat_request \<Rightarrow> world \<Rightarrow> (py_error + ustring option) \<times> world" where
  "chat_completion req w = (llm w (length (llm_log w)) req, w\<lparr>llm_log := llm_log w @ [req]\<rparr>)"

text \<open>\<^verbatim>\<open>(content or "")\<close>\<close>

definition or_empty :: "ustring option \<Rightarrow> ustring" where
  "or_empty content = (case content of None \<Rightarrow> [] | Some c \<Rightarrow> c)"

text \<open>List objects: \<^verbatim>\<open>[]\<close>, \<^verbatim>\<open>list(h)\<close> and \<^verbatim>\<open>h.append(x)\<close>.\<close>

definition new_list :: "history \<Rightarrow> world \<Rightarrow> nat \<times> world" where
  "new_list xs w = (next_ref w, w\<lparr>heap := (heap w)(next_ref w := xs), next_ref := Suc (next_ref w)\<rparr>)"

definition list_copy :: "nat \<Rightarrow> world \<Rightarrow> nat \<times> world" where
  "list_copy r w = new_list (heap w r) w"

definition list_append :: "nat \<Rightarrow> ustring \<times> ustring \<Rightarrow> world \<Rightarrow> world" where
  "list_append r x w = w\<lparr>heap := (heap w)(r := heap w r @ [x])\<rparr>"

section \<open>dialog\_engine.py: sanitization and reply generation\<close>

definition rewrite_without_latin :: "ustring \<Rightarrow> agent \<Rightarrow> world \<Rightarrow> (py_error + ustring) \<times> world" where
  "rewrite_without_latin text agent w =
     (if \<not> LATIN_RE_search text then (Inr text, w)
      else case chat_completion (Rewrite (system_prompt agent) text) w of
             (Inl e, w') \<Rightarrow> (Inl e, w')
           | (Inr content, w') \<Rightarrow>
               (let rewritten = strip (or_empty content)
                in (Inr (if \<not> LATIN_RE_search rewritten then rewritten else text), w')))"

text \<open>The prefix of the topic line, "Tema: " in Cyrillic; the line ends with a full stop.\<close>

definition topic_line_of :: "ustring option \<Rightarrow> ustring" where
  "topic_line_of effective_topic =
     (case effective_topic of
        None \<Rightarrow> []
      | Some t \<Rightarrow> if t = [] then [] else [1058, 1077, 1084, 1072, 58, 32] @ t @ [46])"

text \<open>
  \<open>generate_reply agent history topic max_tokens\<close>; \<open>history\<close> is the reference of the
  caller's list. The result is the pair (reply text, reference of the updated history),
  or the exception raised.
\<close>

definition generate_reply ::
  "agent \<Rightarrow> nat \<Rightarrow> ustring option \<Rightarrow> int \<Rightarrow> world \<Rightarrow> (py_error + ustring \<times> nat) \<times> world" where
  "generate_reply agent history topic max_tokens w =
     (if api_key_missing w then (Inl (RuntimeError MISSING_KEY_MESSAGE), w)
      else
        let is_first_turn = (heap w history = []);
            effective_topic = (if is_first_turn then topic else None);
            topic_line = topic_line_of effective_topic;
            first_expert = (is_first_turn \<and> name agent = IRINA_NAME)
        in case chat_completion
                  (Generate (system_prompt agent) topic_line (heap w history) first_expert max_tokens) w of
             (Inl e, w1) \<Rightarrow> (Inl e, w1)
           | (Inr content, w1) \<Rightarrow>
               let reply_text = strip (or_empty content);
                   reply_text = strip_leading_speaker_prefix reply_text;
                   reply_text = (if first_expert
                                 then add_irina_preface_if_first_turn (enforce_irina_first_phrase reply_text)
                                 else reply_text)
               in case rewrite_without_latin reply_text agent w1 of
                    (Inl e, w2) \<Rightarrow> (Inl e, w2)
                  | (Inr reply_text, w2) \<Rightarrow>
                      let (updated_history, w3) = list_copy history w2;
                          w4 = list_append updated_history (name agent, reply_text) w3
                      in (Inr (reply_text, updated_history), w4))"

section \<open>tts\_engine.py\<close>

definition simplify_speaker_name :: "ustring \<Rightarrow> ustring" where
  "simplify_speaker_name speaker =
     (let simplified = lower speaker;
          simplified = foldl (\<lambda>s ch. remove_char ch s) simplified [32, 40, 41, 91, 93, 123, 125]
      in if simplified = [] then [115, 112, 101, 97, 107, 101, 114] else simplified)"

text \<open>The decimal digits of a natural number, most significant first.\<close>

fun digits10 :: "nat \<Rightarrow> ustring" where
  "digits10 n = (if n < 10 then [48 + n] else digits10 (n div 10) @ [48 + n mod 10])"

declare digits10.simps [simp del]

text \<open>
  The format \<^verbatim>\<open>{n:03d}\<close>: at least three characters, padded with zeros after the sign.
\<close>

definition format_03d :: "int \<Rightarrow> ustring" where
  "format_03d n =
     (if 0 \<le> n
      then (let ds = digits10 (nat n) in replicate (3 - length ds) 48 @ ds)
      else (let ds = digits10 (nat (- n)) in 45 # replicate (2 - length ds) 48 @ ds))"

text \<open>
  Lines 92 and 93 of \<^verbatim>\<open>synthesize_speech\<close>: the artifact's file name
  \<^verbatim>\<open>f"{turn_index:03d}_{speaker_simplified}.mp3"\<close>.
\<close>

definition artifact_filename :: "ustring \<Rightarrow> int \<Rightarrow> ustring" where
  "artifact_filename speaker turn_index =
     (let speaker_simplified = simplify_speaker_name speaker
      in format_03d turn_index @ [95] @ speaker_simplified @ [46, 109, 112, 51])"

text \<open>
  \<open>synthesize_speech text speaker turn_index voice\<close>. The result is the artifact's file
  name inside the audio directory (the source returns it joined to that fixed directory).
\<close>

definition synthesize_speech ::
  "ustring \<Rightarrow> ustring \<Rightarrow> int \<Rightarrow> ustring \<Rightarrow> world \<Rightarrow> (py_error + ustring) \<times> world" where
  "synthesize_speech text speaker turn_index voice w =
     (if api_key_missing w then (Inl (RuntimeError MISSING_KEY_MESSAGE), w)
      else
        let filename = artifact_filename speaker turn_index;
            req = (voice, text, filename);
            w1 = w\<lparr>tts_log := tts_log w @ [req]\<rparr>
        in case tts w (length (tts_log w)) req of
             Some e \<Rightarrow> (Inl e, w1)
           | None \<Rightarrow> (Inr filename, w1\<lparr>audio_files := audio_files w1 @ [filename]\<rparr>))"

section \<open>dialog\_engine.py: the dialog loop\<close>

text \<open>The system prompts of the two agents of \<^verbatim>\<open>run_dialog\<close> (Cyrillic texts).\<close>

definition AGENT1_PROMPT :: ustring where
  "AGENT1_PROMPT =
    [1058, 1099, 32, 8212, 32, 1091, 1095, 1105, 1085, 1072, 1103, 45, 1080, 1089, 1089, 1083,
     1077, 1076, 1086, 1074, 1072, 1090, 1077, 1083, 1100, 1085, 1080, 1094, 1072, 32, 1080, 32,
     1085, 1072, 1091, 1095, 1085, 1099, 1081, 32, 1087, 1086, 1087, 1091, 1083, 1103, 1088,
     1080, 1079, 1072, 1090, 1086, 1088, 46, 32, 1055, 1080, 1096, 1080, 32, 1089, 1087, 1086,
     1082, 1086, 1081, 1085, 1086, 44, 32, 1091, 1074, 1077, 1088, 1077, 1085, 1085, 1086, 32,
     1080, 32, 1095, 1105, 1090, 1082, 1086, 44, 32, 1082, 1072, 1082, 32, 1091, 1084, 1085,
     1072, 1103, 32, 1089, 1086, 1073, 1077, 1089, 1077, 1076, 1085, 1080, 1094, 1072, 32, 1074,
     32, 1087, 1086, 1076, 1082, 1072, 1089, 1090, 1077, 46, 32, 1054, 1073, 1098, 1103, 1089,
     1085, 1103, 1081, 32, 1089, 1083, 1086, 1078, 1085, 1099, 1077, 32, 1074, 1077, 1097, 1080,
     32, 1095, 1077, 1083, 1086, 1074, 1077, 1095, 1077, 1089, 1082, 1080, 1084, 32, 1103, 1079,
     1099, 1082, 1086, 1084, 32, 1080, 32, 1087, 1088, 1086, 1089, 1090, 1099, 1084, 1080, 32,
     1087, 1088, 1080, 1084, 1077, 1088, 1072, 1084, 1080, 44, 32, 1085, 1077, 32, 1089, 1082,
     1072, 1090, 1099, 1074, 1072, 1103, 1089, 1100, 32, 1074, 32, 1089, 1102, 1089, 1102, 1082,
     1072, 1085, 1100, 1077, 32, 1080, 32, 1085, 1077, 32, 1087, 1088, 1080, 1091, 1082, 1088,
     1072, 1096, 1080, 1074, 1072, 1103, 32, 1092, 1072, 1082, 1090, 1099, 46, 32, 1043, 1086,
     1074, 1086, 1088, 1080, 32, 1086, 1090, 32, 1087, 1077, 1088, 1074, 1086, 1075, 1086, 32,
     1083, 1080, 1094, 1072, 32, 1074, 32, 1078, 1077, 1085, 1089, 1082, 1086, 1084, 32, 1088,
     1086, 1076, 1077, 32, 40, 1103, 32, 1089, 1086, 1075, 1083, 1072, 1089, 1085, 1072, 44, 32,
     1103, 32, 1089, 1095, 1080, 1090, 1072, 1102, 44, 32, 1103, 32, 1093, 1086, 1090, 1077,
     1083, 1072, 32, 1073, 1099, 44, 32, 1084, 1085, 1077, 32, 1082, 1072, 1078, 1077, 1090,
     1089, 1103, 41, 32, 1080, 32, 1080, 1079, 1073, 1077, 1075, 1072, 1081, 32, 1084, 1091,
     1078, 1089, 1082, 1080, 1093, 32, 1092, 1086, 1088, 1084, 32, 1074, 1088, 1086, 1076, 1077,
     32, 171, 1103, 32, 1089, 1086, 1075, 1083, 1072, 1089, 1077, 1085, 187, 46, 32, 1058, 1074,
     1086, 1103, 32, 1088, 1086, 1083, 1100, 32, 8212, 32, 1101, 1082, 1089, 1087, 1077, 1088,
     1090, 58, 32, 1090, 1099, 32, 1074, 1077, 1076, 1105, 1096, 1100, 32, 1088, 1072, 1079,
     1075, 1086, 1074, 1086, 1088, 32, 1080, 32, 1076, 1072, 1105, 1096, 1100, 32, 1086, 1073,
     1098, 1103, 1089, 1085, 1077, 1085, 1080, 1103, 32, 1080, 32, 1074, 1099, 1074, 1086, 1076,
     1099, 46, 32, 1042, 1086, 1087, 1088, 1086, 1089, 1099, 32, 1080, 1089, 1087, 1086, 1083,
     1100, 1079, 1091, 1081, 32, 1088, 1077, 1076, 1082, 1086, 32, 1080, 32, 1090, 1086, 1083,
     1100, 1082, 1086, 32, 1087, 1086, 32, 1076, 1077, 1083, 1091, 59, 32, 1085, 1077, 32, 1087,
     1077, 1088, 1077, 1082, 1083, 1072, 1076, 1099, 1074, 1072, 1081, 32, 1101, 1082, 1089,
     1087, 1077, 1088, 1090, 1085, 1086, 1089, 1090, 1100, 32, 1085, 1072, 32, 1089, 1086, 1073,
     1077, 1089, 1077, 1076, 1085, 1080, 1082, 1072, 46, 32, 1070, 1084, 1086, 1088, 32, 1083,
     1105, 1075, 1082, 1080, 1081, 32, 1080, 32, 1080, 1085, 1090, 1077, 1083, 1083, 1080, 1075,
     1077, 1085, 1090, 1085, 1099, 1081, 44, 32, 1076, 1086, 1079, 1080, 1088, 1086, 1074, 1072,
     1085, 1086, 46, 32, 1046, 1025, 1057, 1058, 1050, 1054, 58, 32, 1085, 1080, 1082, 1072,
     1082, 1080, 1093, 32, 1072, 1085, 1075, 1083, 1080, 1081, 1089, 1082, 1080, 1093, 32, 1089,
     1083, 1086, 1074, 44, 32, 1083, 1072, 1090, 1080, 1085, 1080, 1094, 1099, 44, 32, 1090,
     1088, 1072, 1085, 1089, 1083, 1080, 1090, 1077, 1088, 1072, 1094, 1080, 1080, 46]"

definition AGENT2_PROMPT :: ustring where
  "AGENT2_PROMPT =
    [1058, 1099, 32, 8212, 32, 1089, 1082, 1077, 1087, 1090, 1080, 1095, 1085, 1099, 1081, 32,
     1091, 1095, 1105, 1085, 1099, 1081, 32, 1080, 32, 1089, 1086, 1073, 1077, 1089, 1077, 1076,
     1085, 1080, 1082, 44, 32, 1082, 1086, 1090, 1086, 1088, 1099, 1081, 32, 1079, 1072, 1076,
     1072, 1105, 1090, 32, 1085, 1077, 1091, 1076, 1086, 1073, 1085, 1099, 1077, 44, 32, 1085,
     1086, 32, 1091, 1084, 1077, 1089, 1090, 1085, 1099, 1077, 32, 1074, 1086, 1087, 1088, 1086,
     1089, 1099, 46, 32, 1043, 1086, 1074, 1086, 1088, 1080, 32, 1086, 1090, 32, 1087, 1077,
     1088, 1074, 1086, 1075, 1086, 32, 1083, 1080, 1094, 1072, 32, 1074, 32, 1084, 1091, 1078,
     1089, 1082, 1086, 1084, 32, 1088, 1086, 1076, 1077, 32, 1080, 32, 1080, 1079, 1073, 1077,
     1075, 1072, 1081, 32, 1078, 1077, 1085, 1089, 1082, 1080, 1093, 32, 1092, 1086, 1088, 1084,
     46, 32, 1058, 1074, 1086, 1103, 32, 1088, 1086, 1083, 1100, 32, 8212, 32, 1091, 1090, 1086,
     1095, 1085, 1103, 1090, 1100, 32, 1080, 32, 1087, 1088, 1086, 1074, 1077, 1088, 1103, 1090,
     1100, 58, 32, 1089, 1087, 1088, 1072, 1096, 1080, 1074, 1072, 1081, 32, 1087, 1088, 1086,
     32, 1076, 1072, 1085, 1085, 1099, 1077, 44, 32, 1084, 1077, 1090, 1086, 1076, 44, 32, 1086,
     1075, 1088, 1072, 1085, 1080, 1095, 1077, 1085, 1080, 1103, 32, 1080, 32, 1072, 1083, 1100,
     1090, 1077, 1088, 1085, 1072, 1090, 1080, 1074, 1085, 1099, 1077, 32, 1086, 1073, 1098,
     1103, 1089, 1085, 1077, 1085, 1080, 1103, 46, 32, 1057, 1090, 1088, 1091, 1082, 1090, 1091,
     1088, 1072, 32, 1088, 1077, 1087, 1083, 1080, 1082, 1080, 58, 32, 49, 8211, 50, 32, 1087,
     1088, 1077, 1076, 1083, 1086, 1078, 1077, 1085, 1080, 1103, 32, 1089, 1086, 1084, 1085,
     1077, 1085, 1080, 1103, 47, 1091, 1090, 1086, 1095, 1085, 1077, 1085, 1080, 1103, 32, 43,
     32, 49, 8211, 50, 32, 1087, 1088, 1080, 1094, 1077, 1083, 1100, 1085, 1099, 1093, 32, 1074,
     1086, 1087, 1088, 1086, 1089, 1072, 46, 32, 1053, 1077, 32, 1091, 1093, 1086, 1076, 1080,
     32, 1074, 32, 1076, 1083, 1080, 1085, 1085, 1099, 1077, 32, 1084, 1086, 1085, 1086, 1083,
     1086, 1075, 1080, 46, 32, 1070, 1084, 1086, 1088, 32, 1083, 1105, 1075, 1082, 1080, 1081,
     44, 32, 1095, 1091, 1090, 1100, 32, 1077, 1093, 1080, 1076, 1085, 1099, 1081, 44, 32, 1085,
     1086, 32, 1073, 1077, 1079, 32, 1075, 1088, 1091, 1073, 1086, 1089, 1090, 1080, 46, 32,
     1046, 1025, 1057, 1058, 1050, 1054, 58, 32, 1085, 1080, 1082, 1072, 1082, 1080, 1093, 32,
     1072, 1085, 1075, 1083, 1080, 1081, 1089, 1082, 1080, 1093, 32, 1089, 1083, 1086, 1074, 44,
     32, 1083, 1072, 1090, 1080, 1085, 1080, 1094, 1099, 44, 32, 1090, 1088, 1072, 1085, 1089,
     1083, 1080, 1090, 1077, 1088, 1072, 1094, 1080, 1080, 46]"

definition agent1 :: agent where
  "agent1 = \<lparr>name = IRINA_NAME, system_prompt = AGENT1_PROMPT\<rparr>"

definition agent2 :: agent where
  "agent2 = \<lparr>name = ALEXEY_NAME, system_prompt = AGENT2_PROMPT\<rparr>"

text \<open>\<^verbatim>\<open>voice_map\<close>: "nova" for the expert, "alloy" for the skeptic.\<close>

definition voice_map :: "ustring \<rightharpoonup> ustring" where
  "voice_map = [IRINA_NAME \<mapsto> [110, 111, 118, 97], ALEXEY_NAME \<mapsto> [97, 108, 108, 111, 121]]"

text \<open>
  The body of \<^verbatim>\<open>for i in range(turns)\<close>, over the remaining values of \<open>i\<close>. An
  exception of \<^verbatim>\<open>generate_reply\<close> leaves the loop; whatever \<^verbatim>\<open>synthesize_speech\<close>
  raises is caught and only printed.
\<close>

fun dialog_loop :: "ustring \<Rightarrow> nat list \<Rightarrow> nat \<Rightarrow> world \<Rightarrow> (py_error + nat) \<times> world" where
  "dialog_loop topic [] history w = (Inr history, w)"
| "dialog_loop topic (i # rest) history w =
     (let agent = [agent1, agent2] ! (i mod 2)
      in case generate_reply agent history (Some topic) 350 w of
           (Inl e, w1) \<Rightarrow> (Inl e, w1)
         | (Inr (reply, history'), w1) \<Rightarrow>
             let voice = (case voice_map (name agent) of None \<Rightarrow> [97, 108, 108, 111, 121] | Some v \<Rightarrow> v);
                 (audio_path, w2) = synthesize_speech reply (name agent) (int i + 1) voice w1
             in dialog_loop topic rest history' w2)"

text \<open>
  \<open>run_dialog topic turns\<close> returns the reference of the final history; the History
  itself is the content of the heap there.
\<close>

definition run_dialog :: "ustring \<Rightarrow> int \<Rightarrow> world \<Rightarrow> (py_error + nat) \<times> world" where
  "run_dialog topic turns w =
     (let (history, w0) = new_list [] w
      in dialog_loop topic [0 ..< nat turns] history w0)"


section \<open>video\_engine.py\<close>

text \<open>The three classifications, the literals "irina", "alexey" and "unknown".\<close>

definition IRINA_KEY :: ustring where
  "IRINA_KEY = [105, 114, 105, 110, 97]"

definition ALEXEY_KEY :: ustring where
  "ALEXEY_KEY = [97, 108, 101, 120, 101, 121]"

definition UNKNOWN_KEY :: ustring where
  "UNKNOWN_KEY = [117, 110, 107, 110, 111, 119, 110]"

text \<open>The two substrings looked for are the names "irina" and "aleksej" in Cyrillic small letters.\<close>

definition detect_speaker_from_filename :: "ustring \<Rightarrow> ustring" where
  "detect_speaker_from_filename filename =
     (let lower = lower filename
      in if contains lower [1080, 1088, 1080, 1085, 1072] then IRINA_KEY
         else if contains lower [1072, 1083, 1077, 1082, 1089, 1077, 1081] then ALEXEY_KEY
         else UNKNOWN_KEY)"

text \<open>
  A clip of the timeline, by what it was made from: the topic introduction (the topic),
  a speaker introduction (the speaker key), a turn clip (avatar image, audio file name).
\<close>

datatype clip = TopicIntro ustring | SpeakerIntro ustring | AvatarClip ustring ustring

text \<open>
  What the assembler finds outside: whether the audio directory exists, the names that
  \<^verbatim>\<open>AUDIO_DIR.glob("*.mp3")\<close> yields, the two environment values, which files exist,
  and for each of the calls that can raise (topic introduction, reading an artifact's
  duration, speaker introduction, making a turn clip) whether it succeeds. The last
  three are asked with the position \<open>idx\<close> of the artifact in the run.
\<close>

record assembly_env =
  audio_dir_exists :: bool
  mp3_names :: "ustring list"
  MAX_AUDIO_FILES :: int
  TOPIC :: ustring
  avatar_exists :: "ustring \<Rightarrow> bool"
  topic_intro_ok :: bool
  duration_ok :: "nat \<Rightarrow> ustring \<Rightarrow> bool"
  speaker_intro_ok :: "nat \<Rightarrow> ustring \<Rightarrow> bool"
  avatar_clip_ok :: "nat \<Rightarrow> ustring \<Rightarrow> bool"

text \<open>\<^verbatim>\<open>avatar_map\<close>: the image files "irina.jpg" and "alexey.jpg" of the avatar directory.\<close>

definition avatar_map :: "ustring \<rightharpoonup> ustring" where
  "avatar_map = [IRINA_KEY \<mapsto> [105, 114, 105, 110, 97, 46, 106, 112, 103],
                 ALEXEY_KEY \<mapsto> [97, 108, 101, 120, 101, 121, 46, 106, 112, 103]]"

text \<open>
  \<^verbatim>\<open>str.isdigit\<close>: the string is not empty and each of its characters is a digit, that
  is a code point whose Unicode property Numeric\_Type is Decimal or Digit. The table
  lists these code points as ranges (first, last), for Unicode 14: the decimal digits
  of all scripts, the superscript and subscript digits, the circled and parenthesized
  digits.
\<close>

definition DIGIT_RANGES :: "(nat \<times> nat) list" where
  "DIGIT_RANGES =
    [(48, 57), (178, 179), (185, 185), (1632, 1641), (1776, 1785), (1984, 1993), (2406, 2415),
     (2534, 2543), (2662, 2671), (2790, 2799), (2918, 2927), (3046, 3055), (3174, 3183),
     (3302, 3311), (3430, 3439), (3558, 3567), (3664, 3673), (3792, 3801), (3872, 3881),
     (4160, 4169), (4240, 4249), (4969, 4977), (6112, 6121), (6160, 6169), (6470, 6479),
     (6608, 6618), (6784, 6793), (6800, 6809), (6992, 7001), (7088, 7097), (7232, 7241),
     (7248, 7257), (8304, 8304), (8308, 8313), (8320, 8329), (9312, 9320), (9332, 9340),
     (9352, 9360), (9450, 9450), (9461, 9469), (9471, 9471), (10102, 10110), (10112, 10120),
     (10122, 10130), (42528, 42537), (43216, 43225), (43264, 43273), (43472, 43481),
     (43504, 43513), (43600, 43609), (44016, 44025), (65296, 65305), (66720, 66729),
     (68160, 68163), (68912, 68921), (69216, 69224), (69714, 69722), (69734, 69743),
     (69872, 69881), (69942, 69951), (70096, 70105), (70384, 70393), (70736, 70745),
     (70864, 70873), (71248, 71257), (71360, 71369), (71472, 71481), (71904, 71913),
     (72016, 72025), (72784, 72793), (73040, 73049), (73120, 73129), (92768, 92777),
     (92864, 92873), (93008, 93017), (120782, 120831), (123200, 123209), (123632, 123641),
     (125264, 125273), (127232, 127242), (130032, 130041)]"

definition isdigit_cp :: "nat \<Rightarrow> bool" where
  "isdigit_cp c \<longleftrightarrow> list_ex (\<lambda>(first, last). first \<le> c \<and> c \<le> last) DIGIT_RANGES"

definition isdigit :: "ustring \<Rightarrow> bool" where
  "isdigit s \<longleftrightarrow> s \<noteq> [] \<and> list_all isdigit_cp s"

text \<open>\<^verbatim>\<open>p.name[:3].isdigit()\<close>, the test that keeps an artifact of the dialog.\<close>

definition starts_with_digits :: "ustring \<Rightarrow> bool" where
  "starts_with_digits n \<longleftrightarrow> isdigit (take 3 n)"

text \<open>
  The loop of \<^verbatim>\<open>main\<close> over \<^verbatim>\<open>enumerate(audio_files, start=1)\<close>, with the
  dictionary \<open>introduced\<close> and the list \<open>clips\<close> as its state. The result tells whether
  the loop ran to its end (\<open>True\<close>) or \<^verbatim>\<open>main\<close> returned from inside it, and the clips
  appended up to there.
\<close>

fun assemble_loop ::
  "assembly_env \<Rightarrow> (nat \<times> ustring) list \<Rightarrow> (ustring \<rightharpoonup> bool) \<Rightarrow> clip list \<Rightarrow> bool \<times> clip list" where
  "assemble_loop env [] introduced clips = (True, clips)"
| "assemble_loop env ((idx, audio_name) # rest) introduced clips =
     (let speaker_key = detect_speaker_from_filename audio_name
      in case avatar_map speaker_key of
           None \<Rightarrow> assemble_loop env rest introduced clips
         | Some avatar_path \<Rightarrow>
             if \<not> duration_ok env idx audio_name then assemble_loop env rest introduced clips
             else if introduced speaker_key = Some False \<and> \<not> speaker_intro_ok env idx speaker_key
             then (False, clips)
             else
               let (clips, introduced) =
                     (if introduced speaker_key = Some False
                      then (clips @ [SpeakerIntro speaker_key], introduced(speaker_key \<mapsto> True))
                      else (clips, introduced));
                   clips = (if avatar_clip_ok env idx audio_name
                            then clips @ [AvatarClip avatar_path audio_name] else clips)
               in assemble_loop env rest introduced clips)"

text \<open>
  \<^verbatim>\<open>main\<close> up to the point where the clips are concatenated: \<open>Some clips\<close> is the
  sequence handed to the renderer, \<open>None\<close> an early return without any video.
\<close>

definition video_main :: "assembly_env \<Rightarrow> clip list option" where
  "video_main env =
     (if \<not> audio_dir_exists env then None
      else
        let audio_files = sort (mp3_names env);
            audio_files = filter starts_with_digits audio_files;
            audio_files = sort audio_files;
            audio_files = (if MAX_AUDIO_FILES env > 0
                           then take (nat (MAX_AUDIO_FILES env)) audio_files else audio_files)
        in if audio_files = [] then None
           else if \<not> (avatar_exists env IRINA_KEY \<and> avatar_exists env ALEXEY_KEY) then None
           else if \<not> topic_intro_ok env then None
           else
             let clips = [TopicIntro (TOPIC env)];
                 introduced = [IRINA_KEY \<mapsto> False, ALEXEY_KEY \<mapsto> False]
             in case assemble_loop env (zip [1 ..< Suc (length audio_files)] audio_files)
                       introduced clips of
                  (False, clips) \<Rightarrow> None
                | (True, clips) \<Rightarrow> if clips = [] then None else Some clips)"

text \<open>
  Two properties of a clip sequence. In \<open>ordered_intros\<close> every introduction of a speaker
  stands before every turn clip of that speaker, the speaker of a turn clip being the
  one inferred from the name of its audio file. \<open>assembly_invariant\<close> is what holds of
  the dictionary and the clips between two rounds of the loop: a speaker still marked
  as not introduced has neither an introduction nor a turn clip, and no speaker has two
  introductions.
\<close>

definition ordered_intros :: "clip list \<Rightarrow> bool" where
  "ordered_intros clips \<longleftrightarrow>
     (\<forall>i j img a. i < length clips \<and> j < length clips \<and>
        clips ! i = SpeakerIntro (detect_speaker_from_filename a) \<and> clips ! j = AvatarClip img a
        \<longrightarrow> i < j)"

definition assembly_invariant :: "(ustring \<rightharpoonup> bool) \<Rightarrow> clip list \<Rightarrow> bool" where
  "assembly_invariant introduced clips \<longleftrightarrow>
     (\<forall>k. introduced k = Some False \<longrightarrow>
        SpeakerIntro k \<notin> set clips \<and>
        (\<forall>img a. AvatarClip img a \<in> set clips \<longrightarrow> detect_speaker_from_filename a \<noteq> k)) \<and>
     (\<forall>k. count_list clips (SpeakerIntro k) \<le> 1) \<and>
     ordered_intros clips"

section \<open>Example worlds\<close>

text \<open>
  Concrete worlds on which the theorems below are evaluated. The language model of
  \<open>example_llm\<close> answers every generation request with the text "Hi" and every rewrite
  request with the Cyrillic word "Da"; the speech capability of \<open>example_world\<close> fails
  on its second request and succeeds on every other.
\<close>

definition example_llm :: "nat \<Rightarrow> chat_request \<Rightarrow> py_error + ustring option" where
  "example_llm k req =
     (case req of Generate _ _ _ _ _ \<Rightarrow> Inr (Some [72, 105]) | Rewrite _ _ \<Rightarrow> Inr (Some [1044, 1072]))"

definition example_world :: world where
  "example_world =
     \<lparr>OPENAI_API_KEY = Some [115, 107], llm = example_llm, llm_log = [],
      tts = (\<lambda>k req. if k = 1 then Some (CapabilityError 0) else None), tts_log = [],
      audio_files = [], heap = (\<lambda>r. []), next_ref = 0\<rparr>"

definition example_world_no_key :: world where
  "example_world_no_key = example_world\<lparr>OPENAI_API_KEY := None\<rparr>"

text \<open>
  An audio directory with three artifacts, of the expert, the skeptic and the expert
  again (the names "001irina", "002aleksej" and "003irina" in Cyrillic small letters),
  and a file "x" that is no artifact; every call of the assembler succeeds.
\<close>

definition example_env :: assembly_env where
  "example_env =
     \<lparr>audio_dir_exists = True,
      mp3_names = [[48, 48, 51, 1080, 1088, 1080, 1085, 1072], [120],
                   [48, 48, 50, 1072, 1083, 1077, 1082, 1089, 1077, 1081],
                   [48, 48, 49, 1080, 1088, 1080, 1085, 1072]],
      MAX_AUDIO_FILES = 0, TOPIC = [1058],
      avatar_exists = (\<lambda>k. True), topic_intro_ok = True,
      duration_ok = (\<lambda>idx a. True), speaker_intro_ok = (\<lambda>idx k. True),
      avatar_clip_ok = (\<lambda>idx a. True)\<rparr>"

section \<open>Speaker inference from a file name\<close>

text \<open>
  Claim C10. Speaker inference is first-match-wins with the expert checked first: a file
  name whose lowercased form contains the expert's name is classified as the expert,
  whether or not it also contains the skeptic's name; a file name that contains neither
  name is classified as "unknown".
\<close>

theorem detect_speaker_first_match_wins:
  "(contains (lower filename) [1080, 1088, 1080, 1085, 1072]
      \<longrightarrow> detect_speaker_from_filename filename = IRINA_KEY) \<and>
   (\<not> contains (lower filename) [1080, 1088, 1080, 1085, 1072] \<and>
    \<not> contains (lower filename) [1072, 1083, 1077, 1082, 1089, 1077, 1081]
      \<longrightarrow> detect_speaker_from_filename filename = UNKNOWN_KEY)"
  by (simp add: detect_speaker_from_filename_def Let_def)

text \<open>
  The theorem at the name "IrinaAleksej" (in Cyrillic), which contains both names, and at
  "001.mp3", which contains neither.
\<close>

theorem detect_speaker_first_match_wins_witness:
  "contains (lower [1048, 1088, 1080, 1085, 1072, 1040, 1083, 1077, 1082, 1089, 1077, 1081])
      [1080, 1088, 1080, 1085, 1072] \<and>
   contains (lower [1048, 1088, 1080, 1085, 1072, 1040, 1083, 1077, 1082, 1089, 1077, 1081])
      [1072, 1083, 1077, 1082, 1089, 1077, 1081] \<and>
   detect_speaker_from_filename [1048, 1088, 1080, 1085, 1072, 1040, 1083, 1077, 1082, 1089, 1077, 1081]
     = IRINA_KEY \<and>
   \<not> contains (lower [48, 48, 49, 46, 109, 112, 51]) [1080, 1088, 1080, 1085, 1072] \<and>
   \<not> contains (lower [48, 48, 49, 46, 109, 112, 51]) [1072, 1083, 1077, 1082, 1089, 1077, 1081] \<and>
   detect_speaker_from_filename [48, 48, 49, 46, 109, 112, 51] = UNKNOWN_KEY"
proof -
  have a: "contains (lower [1048, 1088, 1080, 1085, 1072, 1040, 1083, 1077, 1082, 1089, 1077, 1081])
      [1080, 1088, 1080, 1085, 1072]"
    by (simp add: contains_def lower_def lower_cp_def)
  have b: "contains (lower [1048, 1088, 1080, 1085, 1072, 1040, 1083, 1077, 1082, 1089, 1077, 1081])
      [1072, 1083, 1077, 1082, 1089, 1077, 1081]"
    by (simp add: contains_def lower_def lower_cp_def sublist_code)
  have c: "\<not> contains (lower [48, 48, 49, 46, 109, 112, 51]) [1080, 1088, 1080, 1085, 1072]"
    by (simp add: contains_def lower_def lower_cp_def sublist_code)
  have d: "\<not> contains (lower [48, 48, 49, 46, 109, 112, 51]) [1072, 1083, 1077, 1082, 1089, 1077, 1081]"
    by (simp add: contains_def lower_def lower_cp_def sublist_code)
  from a b c d
    detect_speaker_first_match_wins [of "[1048, 1088, 1080, 1085, 1072, 1040, 1083, 1077, 1082, 1089, 1077, 1081]"]
    detect_speaker_first_match_wins [of "[48, 48, 49, 46, 109, 112, 51]"]
  show ?thesis by blast
qed

section \<open>The missing credential\<close>

lemma dialog_loop_missing_key:
  "api_key_missing w \<Longrightarrow>
   dialog_loop topic (i # rest) history w = (Inl (RuntimeError MISSING_KEY_MESSAGE), w)"
  by (simp add: generate_reply_def Let_def)

text \<open>
  Claim C8. When \<^verbatim>\<open>OPENAI_API_KEY\<close> is unset or empty, \<open>generate_reply\<close> raises the
  configuration error and leaves the world as it was: no request has been issued to the
  language model and no list has been created or extended. \<open>synthesize_speech\<close> raises
  the same error, again with the world unchanged, so before any request to the speech
  capability. The error is fatal for the dialog: \<open>run_dialog\<close> with at least one turn
  ends with it, having issued no request, and its history list is still empty.
\<close>

theorem missing_credential_raises:
  "api_key_missing w \<Longrightarrow>
     generate_reply agent history topic max_tokens w = (Inl (RuntimeError MISSING_KEY_MESSAGE), w) \<and>
     synthesize_speech text speaker turn_index voice w = (Inl (RuntimeError MISSING_KEY_MESSAGE), w) \<and>
     (1 \<le> turns \<longrightarrow>
        fst (run_dialog topic' turns w) = Inl (RuntimeError MISSING_KEY_MESSAGE) \<and>
        llm_log (snd (run_dialog topic' turns w)) = llm_log w \<and>
        tts_log (snd (run_dialog topic' turns w)) = tts_log w \<and>
        heap (snd (run_dialog topic' turns w)) (next_ref w) = [])"
proof (intro conjI impI)
  assume m: "api_key_missing w"
  show "generate_reply agent history topic max_tokens w = (Inl (RuntimeError MISSING_KEY_MESSAGE), w)"
    using m by (simp add: generate_reply_def)
  show "synthesize_speech text speaker turn_index voice w = (Inl (RuntimeError MISSING_KEY_MESSAGE), w)"
    using m by (simp add: synthesize_speech_def)
  assume t: "1 \<le> turns"
  then have u: "[0 ..< nat turns] = 0 # [1 ..< nat turns]"
    by (simp add: upt_conv_Cons)
  let ?w0 = "snd (new_list [] w)"
  have m0: "api_key_missing ?w0"
    using m by (simp add: new_list_def api_key_missing_def)
  have "run_dialog topic' turns w = dialog_loop topic' (0 # [1 ..< nat turns]) (next_ref w) ?w0"
    by (simp add: run_dialog_def u new_list_def del: dialog_loop.simps)
  then have r: "run_dialog topic' turns w = (Inl (RuntimeError MISSING_KEY_MESSAGE), ?w0)"
    by (simp only: dialog_loop_missing_key [OF m0])
  show "fst (run_dialog topic' turns w) = Inl (RuntimeError MISSING_KEY_MESSAGE)"
    by (simp add: r)
  show "llm_log (snd (run_dialog topic' turns w)) = llm_log w"
    by (simp add: r new_list_def)
  show "tts_log (snd (run_dialog topic' turns w)) = tts_log w"
    by (simp add: r new_list_def)
  show "heap (snd (run_dialog topic' turns w)) (next_ref w) = []"
    by (simp add: r new_list_def)
qed

text \<open>The theorem in the example world without a key, for a dialog of four turns.\<close>

theorem missing_credential_raises_witness:
  "api_key_missing example_world_no_key \<and>
   generate_reply agent1 0 (Some [1058]) 350 example_world_no_key
     = (Inl (RuntimeError MISSING_KEY_MESSAGE), example_world_no_key) \<and>
   synthesize_speech [1044, 1072] IRINA_NAME 1 [110, 111, 118, 97] example_world_no_key
     = (Inl (RuntimeError MISSING_KEY_MESSAGE), example_world_no_key) \<and>
   fst (run_dialog [1058] 4 example_world_no_key) = Inl (RuntimeError MISSING_KEY_MESSAGE) \<and>
   llm_log (snd (run_dialog [1058] 4 example_world_no_key)) = []"
proof -
  have m: "api_key_missing example_world_no_key"
    by (simp add: api_key_missing_def example_world_no_key_def example_world_def)
  have l: "llm_log example_world_no_key = []"
    by (simp add: example_world_no_key_def example_world_def)
  from m l
    missing_credential_raises [OF m, of agent1 0 "Some [1058]" 350 "[1044, 1072]" IRINA_NAME 1
      "[110, 111, 118, 97]" 4 "[1058]"]
  show ?thesis by simp
qed

section \<open>The constraint pipeline\<close>

subsection \<open>Stripping and prefixes\<close>

lemma lstrip_lstrip: "lstrip (lstrip s) = lstrip s"
  by (simp add: lstrip_def)

lemma strip_lstrip: "strip (lstrip s) = strip s"
  by (simp add: strip_def lstrip_lstrip)

lemma lstrip_nonspace: "s \<noteq> [] \<Longrightarrow> \<not> isspace (hd s) \<Longrightarrow> lstrip s = s"
  by (cases s) (simp_all add: lstrip_def)

lemma rstrip_keeps_prefix:
  assumes "A \<noteq> []" and "\<not> isspace (last A)"
  shows "prefix A (rstrip (A @ rest))"
proof -
  have ra: "dropWhile isspace (rev A) = rev A"
    using assms by (cases "rev A") (simp_all add: last_rev [symmetric] hd_rev)
  show ?thesis
  proof (cases "\<forall>x \<in> set (rev rest). isspace x")
    case True
    then have "dropWhile isspace (rev rest @ rev A) = rev A"
      by (simp add: dropWhile_append ra)
    then show ?thesis by (simp add: rstrip_def)
  next
    case False
    then have "dropWhile isspace (rev rest @ rev A) = dropWhile isspace (rev rest) @ rev A"
      by (auto simp add: dropWhile_append)
    then show ?thesis by (simp add: rstrip_def)
  qed
qed

lemma strip_keeps_prefix:
  assumes "A \<noteq> []" and "\<not> isspace (hd A)" and "\<not> isspace (last A)"
  shows "prefix A (strip (A @ rest))"
proof -
  have "lstrip (A @ rest) = A @ rest"
    using assms by (intro lstrip_nonspace) simp_all
  then show ?thesis
    using rstrip_keeps_prefix [OF assms(1) assms(3)] by (simp add: strip_def)
qed

lemma phrase_ends: "IRINA_FIRST_PHRASE \<noteq> [] \<and> hd IRINA_FIRST_PHRASE = 1044 \<and> last IRINA_FIRST_PHRASE = 46"
  by (simp add: IRINA_FIRST_PHRASE_def)

lemma preface_ends: "IRINA_PREFACE \<noteq> [] \<and> hd IRINA_PREFACE = 1044 \<and> last IRINA_PREFACE = 46"
  by (simp add: IRINA_PREFACE_def)

lemma nonspace_ends: "\<not> isspace 1044 \<and> \<not> isspace 46"
  by (simp add: isspace_def)

lemma enforce_starts_with_phrase:
  "startswith (enforce_irina_first_phrase reply) IRINA_FIRST_PHRASE"
proof (cases "startswith (lstrip reply) IRINA_FIRST_PHRASE")
  case True
  then show ?thesis by (simp add: enforce_irina_first_phrase_def)
next
  case False
  have "prefix IRINA_FIRST_PHRASE (strip (IRINA_FIRST_PHRASE @ ([32] @ lstrip reply)))"
    using phrase_ends nonspace_ends by (intro strip_keeps_prefix) simp_all
  with False show ?thesis
    by (simp add: enforce_irina_first_phrase_def startswith_def)
qed

lemma add_preface_starts_with_preface:
  assumes "startswith e IRINA_FIRST_PHRASE"
  shows "startswith (add_irina_preface_if_first_turn e) (IRINA_PREFACE @ [32] @ IRINA_FIRST_PHRASE)"
proof -
  from assms obtain rest where e: "e = IRINA_FIRST_PHRASE @ rest"
    by (auto simp add: startswith_def prefix_def)
  have l: "lstrip e = e"
    using phrase_ends nonspace_ends by (intro lstrip_nonspace) (simp_all add: e)
  let ?A = "IRINA_PREFACE @ [32] @ IRINA_FIRST_PHRASE"
  have "prefix ?A (strip (?A @ rest))"
    using phrase_ends preface_ends nonspace_ends by (intro strip_keeps_prefix) simp_all
  then have "prefix ?A (strip (IRINA_PREFACE @ [32] @ e))"
    by (simp add: e)
  then show ?thesis
    using assms by (simp add: add_irina_preface_if_first_turn_def l startswith_def)
qed

lemma first_turn_text_starts:
  "startswith (add_irina_preface_if_first_turn (enforce_irina_first_phrase x))
     (IRINA_PREFACE @ [32] @ IRINA_FIRST_PHRASE)"
  by (rule add_preface_starts_with_preface) (rule enforce_starts_with_phrase)

lemma strip_ends:
  "strip y = [] \<or> (\<not> isspace (hd (strip y)) \<and> \<not> isspace (last (strip y)))"
proof (cases "strip y = []")
  case True
  then show ?thesis by simp
next
  case False
  let ?u = "dropWhile isspace y"
  let ?v = "dropWhile isspace (rev ?u)"
  have s: "strip y = rev ?v"
    by (simp add: strip_def lstrip_def rstrip_def)
  with False have v: "?v \<noteq> []" by simp
  then have hv: "\<not> isspace (hd ?v)"
    by (rule hd_dropWhile)
  have u: "?u \<noteq> []"
    using v by (cases ?u) auto
  then have hu: "\<not> isspace (hd ?u)"
    by (rule hd_dropWhile)
  obtain ws where w: "rev ?u = ws @ ?v"
    by (metis takeWhile_dropWhile_id)
  have "last ?v = last (rev ?u)"
    using v by (subst w) simp
  also have "\<dots> = hd ?u"
    using u by (simp add: last_rev)
  finally have lv: "last ?v = hd ?u" .
  have "hd (strip y) = last ?v"
    using v by (simp add: s hd_rev)
  moreover have "last (strip y) = hd ?v"
    using v by (simp add: s last_rev)
  ultimately show ?thesis
    using hv hu lv by simp
qed

lemma strip_id:
  assumes "s \<noteq> []" and "\<not> isspace (hd s)" and "\<not> isspace (last s)"
  shows "strip s = s"
proof -
  have l: "lstrip s = s"
    using assms by (intro lstrip_nonspace)
  have "dropWhile isspace (rev s) = rev s"
    using assms by (cases "rev s") (simp_all add: last_rev [symmetric] hd_rev)
  then show ?thesis
    by (simp add: strip_def l rstrip_def)
qed

lemma phrase_not_preface:
  "\<not> prefix (IRINA_PREFACE @ [32] @ IRINA_FIRST_PHRASE) (IRINA_FIRST_PHRASE @ rest)"
  by (simp add: IRINA_PREFACE_def IRINA_FIRST_PHRASE_def)

lemma first_turn_text_form:
  assumes "x = strip y"
  shows "add_irina_preface_if_first_turn (enforce_irina_first_phrase x) =
           IRINA_PREFACE @ [32] @
           (if startswith x IRINA_FIRST_PHRASE then x
            else if x = [] then IRINA_FIRST_PHRASE else IRINA_FIRST_PHRASE @ [32] @ x)"
proof -
  let ?e = "if startswith x IRINA_FIRST_PHRASE then x
            else if x = [] then IRINA_FIRST_PHRASE else IRINA_FIRST_PHRASE @ [32] @ x"
  from strip_ends [of y] assms
  have xe: "x = [] \<or> (\<not> isspace (hd x) \<and> \<not> isspace (last x))"
    by simp
  then have lx: "lstrip x = x"
    by (cases x) (auto simp add: lstrip_def)
  have e: "enforce_irina_first_phrase x = ?e"
  proof (cases "startswith x IRINA_FIRST_PHRASE")
    case True
    then show ?thesis by (simp add: enforce_irina_first_phrase_def lx)
  next
    case False
    show ?thesis
    proof (cases "x = []")
      case True
      have "strip (IRINA_FIRST_PHRASE @ [32]) = IRINA_FIRST_PHRASE"
        by (simp add: strip_def lstrip_def rstrip_def isspace_def IRINA_FIRST_PHRASE_def)
      with True False show ?thesis
        by (simp add: enforce_irina_first_phrase_def lstrip_def)
    next
      case n: False
      have "strip (IRINA_FIRST_PHRASE @ [32] @ x) = IRINA_FIRST_PHRASE @ [32] @ x"
        using n xe phrase_ends nonspace_ends by (intro strip_id) simp_all
      with n False show ?thesis
        by (simp add: enforce_irina_first_phrase_def lx)
    qed
  qed
  have sf: "startswith ?e IRINA_FIRST_PHRASE"
    by (simp add: startswith_def)
  then obtain rest where r: "?e = IRINA_FIRST_PHRASE @ rest"
    by (auto simp add: startswith_def prefix_def)
  have ne: "?e \<noteq> []"
    using phrase_ends by (subst r) simp
  have he: "hd ?e = 1044"
    using phrase_ends by (subst r) simp
  have le: "\<not> isspace (last ?e)"
    using xe phrase_ends nonspace_ends by (auto simp add: startswith_def)
  have l: "lstrip ?e = ?e"
    using ne he nonspace_ends by (intro lstrip_nonspace) simp_all
  have "\<not> prefix (IRINA_PREFACE @ [32] @ IRINA_FIRST_PHRASE) ?e"
    unfolding r by (rule phrase_not_preface)
  then have np: "\<not> startswith ?e (IRINA_PREFACE @ [32] @ IRINA_FIRST_PHRASE)"
    by (simp add: startswith_def)
  have "strip (IRINA_PREFACE @ [32] @ ?e) = IRINA_PREFACE @ [32] @ ?e"
    using ne le preface_ends nonspace_ends by (intro strip_id) simp_all
  then have "add_irina_preface_if_first_turn ?e = IRINA_PREFACE @ [32] @ ?e"
    using sf np by (simp add: add_irina_preface_if_first_turn_def l del: append.simps)
  then show ?thesis
    by (simp only: e)
qed

lemma first_turn_text_once:
  assumes "x = strip y"
    and "\<not> startswith x (IRINA_PREFACE @ [32] @ IRINA_FIRST_PHRASE)"
    and "\<not> startswith x (IRINA_FIRST_PHRASE @ [32] @ IRINA_PREFACE @ [32] @ IRINA_FIRST_PHRASE)"
  shows "\<not> startswith (add_irina_preface_if_first_turn (enforce_irina_first_phrase x))
           ((IRINA_PREFACE @ [32] @ IRINA_FIRST_PHRASE) @ [32] @ IRINA_PREFACE @ [32] @ IRINA_FIRST_PHRASE)"
proof (cases "startswith x IRINA_FIRST_PHRASE")
  case True
  then obtain rest where r: "x = IRINA_FIRST_PHRASE @ rest"
    by (auto simp add: startswith_def prefix_def)
  from assms(3) have "\<not> prefix ([32] @ IRINA_PREFACE @ [32] @ IRINA_FIRST_PHRASE) rest"
    by (simp add: startswith_def r)
  then show ?thesis
    unfolding first_turn_text_form [OF assms(1)] using True
    by (simp add: startswith_def r)
next
  case False
  show ?thesis
  proof (cases "x = []")
    case True
    have "length (IRINA_PREFACE @ [32] @ IRINA_FIRST_PHRASE) <
          length ((IRINA_PREFACE @ [32] @ IRINA_FIRST_PHRASE) @ [32] @ IRINA_PREFACE @ [32] @ IRINA_FIRST_PHRASE)"
      by simp
    then have "\<not> prefix ((IRINA_PREFACE @ [32] @ IRINA_FIRST_PHRASE) @ [32] @ IRINA_PREFACE @ [32] @ IRINA_FIRST_PHRASE)
                 (IRINA_PREFACE @ [32] @ IRINA_FIRST_PHRASE)"
      using prefix_length_le by fastforce
    then show ?thesis
      unfolding first_turn_text_form [OF assms(1)] using True False
      by (simp add: startswith_def)
  next
    case n: False
    from assms(2) show ?thesis
      unfolding first_turn_text_form [OF assms(1)] using n False
      by (simp add: startswith_def)
  qed
qed

subsection \<open>Prefix stripping\<close>

text \<open>
  Claim C3, as amended. For every input text that does not begin (after leading
  whitespace) with the speaker self-label pattern, prefix stripping returns the text
  with its leading and trailing whitespace removed; a text that has no whitespace at
  either end is therefore returned unaltered.
\<close>

theorem strip_prefix_without_label:
  "rmatch SPEAKER_PREFIX_RE (lstrip reply) = [] \<Longrightarrow>
     strip_leading_speaker_prefix reply = strip reply \<and>
     (strip reply = reply \<longrightarrow> strip_leading_speaker_prefix reply = reply)"
  by (simp add: strip_leading_speaker_prefix_def re_sub_anchored_def strip_lstrip)

subsection \<open>Sanitization\<close>

text \<open>
  Claim C4. Sanitization of a text without a Latin letter returns the text and leaves the
  world as it was, so no request is issued. When the text has a Latin letter and the
  answer to the one rewrite request still has one, the original text is the result (a
  value, not an exception) and that request is the only one issued. Every result either
  has no Latin letter or is the original text. In all cases the log of requests is left
  as it was or is extended by exactly that one rewrite request.
\<close>

theorem rewrite_without_latin_one_attempt:
  "(\<not> LATIN_RE_search text \<longrightarrow> rewrite_without_latin text agent w = (Inr text, w)) \<and>
   (\<forall>content. LATIN_RE_search text \<and>
       llm w (length (llm_log w)) (Rewrite (system_prompt agent) text) = Inr content \<and>
       LATIN_RE_search (strip (or_empty content)) \<longrightarrow>
       rewrite_without_latin text agent w
         = (Inr text, w\<lparr>llm_log := llm_log w @ [Rewrite (system_prompt agent) text]\<rparr>)) \<and>
   (\<forall>t. fst (rewrite_without_latin text agent w) = Inr t \<longrightarrow> \<not> LATIN_RE_search t \<or> t = text) \<and>
   (llm_log (snd (rewrite_without_latin text agent w)) = llm_log w \<or>
    llm_log (snd (rewrite_without_latin text agent w))
      = llm_log w @ [Rewrite (system_prompt agent) text])"
  by (auto simp add: rewrite_without_latin_def chat_completion_def Let_def split: sum.splits)

subsection \<open>The history list\<close>

text \<open>
  Claim C9. \<open>generate_reply\<close> does not mutate the caller's History list. Whatever the
  outcome, every list allocated before the call (among them the caller's \<open>history\<close>)
  has the same content afterwards. When it returns, the returned history is a freshly
  allocated list, different from the caller's, whose content is the caller's content
  with exactly one turn (the agent's name, the reply) appended at the end.
\<close>

theorem generate_reply_does_not_mutate_history:
  "history < next_ref w \<Longrightarrow>
     (\<forall>r < next_ref w. heap (snd (generate_reply agent history topic max_tokens w)) r = heap w r) \<and>
     (\<forall>reply updated w'.
        generate_reply agent history topic max_tokens w = (Inr (reply, updated), w') \<longrightarrow>
          updated = next_ref w \<and> updated \<noteq> history \<and>
          heap w' updated = heap w history @ [(name agent, reply)] \<and>
          heap w' history = heap w history)"
  by (auto simp add: generate_reply_def rewrite_without_latin_def chat_completion_def
        list_copy_def new_list_def list_append_def Let_def split: sum.splits prod.splits if_splits)

subsection \<open>The expert's first turn\<close>

text \<open>
  Claim C1, as amended. On the expert's first turn (empty history, the agent's name is
  \<open>IRINA_NAME\<close>, the credential is set, the model answers the generation request with
  \<open>content\<close>), let \<open>x\<close> be the text after prefix stripping and \<open>pre\<close> the text after
  opening-phrase enforcement and preface injection. Then \<open>pre\<close> starts with the preface,
  one space, and the opening phrase, whatever the raw text was. This combination occurs
  as a prefix exactly once, that is \<open>pre\<close> does not go on with a space and the
  combination again, provided that \<open>x\<close> begins neither with the combination itself nor
  with the opening phrase, a space and the combination. Sanitization keeps \<open>pre\<close> in two
  cases, and then \<open>generate_reply\<close> returns \<open>pre\<close> as the turn's text: when \<open>pre\<close> has
  no Latin letter, and when it has one and the rewrite still has one. Conversely a
  returned text that has a Latin letter, or that comes from a Latin-free \<open>pre\<close>, is
  \<open>pre\<close>, so it starts in that way, exactly once under the same proviso. Nothing is said
  of a rewrite that is accepted.
\<close>

theorem expert_first_turn_opening:
  assumes "\<not> api_key_missing w" and "heap w history = []" and "name agent = IRINA_NAME"
    and "llm w (length (llm_log w))
           (Generate (system_prompt agent) (topic_line_of topic) [] True max_tokens) = Inr content"
    and "x = strip_leading_speaker_prefix (strip (or_empty content))"
    and "pre = add_irina_preface_if_first_turn (enforce_irina_first_phrase x)"
  shows "startswith pre (IRINA_PREFACE @ [32] @ IRINA_FIRST_PHRASE) \<and>
     (\<not> startswith x (IRINA_PREFACE @ [32] @ IRINA_FIRST_PHRASE) \<and>
      \<not> startswith x (IRINA_FIRST_PHRASE @ [32] @ IRINA_PREFACE @ [32] @ IRINA_FIRST_PHRASE) \<longrightarrow>
        \<not> startswith pre
            ((IRINA_PREFACE @ [32] @ IRINA_FIRST_PHRASE) @ [32] @ IRINA_PREFACE @ [32] @ IRINA_FIRST_PHRASE)) \<and>
     (\<not> LATIN_RE_search pre \<longrightarrow>
        fst (generate_reply agent history topic max_tokens w) = Inr (pre, next_ref w)) \<and>
     (\<forall>c. LATIN_RE_search pre \<and>
          llm w (Suc (length (llm_log w))) (Rewrite (system_prompt agent) pre) = Inr c \<and>
          LATIN_RE_search (strip (or_empty c)) \<longrightarrow>
        fst (generate_reply agent history topic max_tokens w) = Inr (pre, next_ref w)) \<and>
     (\<forall>reply updated w'.
        generate_reply agent history topic max_tokens w = (Inr (reply, updated), w') \<and>
        (LATIN_RE_search reply \<or> \<not> LATIN_RE_search pre) \<longrightarrow>
        reply = pre \<and> startswith reply (IRINA_PREFACE @ [32] @ IRINA_FIRST_PHRASE) \<and>
        (\<not> startswith x (IRINA_PREFACE @ [32] @ IRINA_FIRST_PHRASE) \<and>
         \<not> startswith x (IRINA_FIRST_PHRASE @ [32] @ IRINA_PREFACE @ [32] @ IRINA_FIRST_PHRASE) \<longrightarrow>
           \<not> startswith reply
               ((IRINA_PREFACE @ [32] @ IRINA_FIRST_PHRASE) @ [32] @ IRINA_PREFACE @ [32] @ IRINA_FIRST_PHRASE)))"
proof -
  have s: "startswith pre (IRINA_PREFACE @ [32] @ IRINA_FIRST_PHRASE)"
    unfolding assms(6) by (rule first_turn_text_starts)
  have y: "x = strip (re_sub_anchored SPEAKER_PREFIX_RE (lstrip (strip (or_empty content))))"
    unfolding assms(5) by (simp add: strip_leading_speaker_prefix_def)
  have o: "\<not> startswith x (IRINA_PREFACE @ [32] @ IRINA_FIRST_PHRASE) \<and>
      \<not> startswith x (IRINA_FIRST_PHRASE @ [32] @ IRINA_PREFACE @ [32] @ IRINA_FIRST_PHRASE) \<longrightarrow>
        \<not> startswith pre
            ((IRINA_PREFACE @ [32] @ IRINA_FIRST_PHRASE) @ [32] @ IRINA_PREFACE @ [32] @ IRINA_FIRST_PHRASE)"
    unfolding assms(6) using first_turn_text_once [OF y] by blast
  have g: "generate_reply agent history topic max_tokens w =
     (case rewrite_without_latin pre agent (w\<lparr>llm_log := llm_log w @
            [Generate (system_prompt agent) (topic_line_of topic) [] True max_tokens]\<rparr>) of
        (Inl e, w2) \<Rightarrow> (Inl e, w2)
      | (Inr reply_text, w2) \<Rightarrow>
          (Inr (reply_text, next_ref w2),
           list_append (next_ref w2) (IRINA_NAME, reply_text) (snd (list_copy history w2))))"
    using assms(1-4) unfolding assms(5) assms(6)
    by (simp add: generate_reply_def chat_completion_def Let_def list_copy_def new_list_def
          split: prod.splits sum.splits)
  have k1: "\<not> LATIN_RE_search pre \<longrightarrow>
        fst (generate_reply agent history topic max_tokens w) = Inr (pre, next_ref w)"
    unfolding g
    by (simp add: rewrite_without_latin_def)
  have k2: "\<forall>c. LATIN_RE_search pre \<and>
          llm w (Suc (length (llm_log w))) (Rewrite (system_prompt agent) pre) = Inr c \<and>
          LATIN_RE_search (strip (or_empty c)) \<longrightarrow>
        fst (generate_reply agent history topic max_tokens w) = Inr (pre, next_ref w)"
    unfolding g
    by (simp add: rewrite_without_latin_def chat_completion_def Let_def)
  have k3: "\<forall>reply updated w'.
        generate_reply agent history topic max_tokens w = (Inr (reply, updated), w') \<and>
        (LATIN_RE_search reply \<or> \<not> LATIN_RE_search pre) \<longrightarrow> reply = pre"
    unfolding g
    by (auto simp add: rewrite_without_latin_def chat_completion_def Let_def
          split: sum.splits prod.splits if_splits)
  from s o k1 k2 k3 show ?thesis
    by blast
qed

section \<open>The constraint pipeline on concrete texts\<close>

lemmas text_defs = strip_leading_speaker_prefix_def re_sub_anchored_def strip_def lstrip_def rstrip_def
  SPEAKER_PREFIX_RE_def seqs_def lits_def lit_matches_def lower_cp_def ignorecase_variants_def isspace_def

text \<open>
  Claim C3 as stated fails: the text "P " (a Cyrillic letter and a space) carries no
  speaker label, and prefix stripping removes its trailing space.
\<close>

theorem strip_prefix_alters_whitespace_counterexample:
  "rmatch SPEAKER_PREFIX_RE (lstrip [1055, 32]) = [] \<and>
   strip_leading_speaker_prefix [1055, 32] \<noteq> [1055, 32]"
  by (simp add: text_defs)

text \<open>The amended statement at "P " and at "P".\<close>

theorem strip_prefix_without_label_witness:
  "rmatch SPEAKER_PREFIX_RE (lstrip [1055, 32]) = [] \<and>
   strip_leading_speaker_prefix [1055, 32] = [1055] \<and>
   rmatch SPEAKER_PREFIX_RE (lstrip [1055]) = [] \<and> strip [1055] = [1055] \<and>
   strip_leading_speaker_prefix [1055] = [1055]"
proof -
  have a: "rmatch SPEAKER_PREFIX_RE (lstrip [1055, 32]) = []"
    by (simp add: text_defs)
  have b: "rmatch SPEAKER_PREFIX_RE (lstrip [1055]) = []"
    by (simp add: text_defs)
  have c: "strip [1055, 32] = [1055]" "strip [1055] = [1055]"
    by (simp_all add: strip_def lstrip_def rstrip_def isspace_def)
  from a b c strip_prefix_without_label [OF a] strip_prefix_without_label [OF b]
  show ?thesis by simp
qed

text \<open>
  Claim C4 on three runs: a Cyrillic text (no request issued); the text "Hi" with a model
  whose rewrite "OK " still has Latin letters (the original is kept after one request);
  the text "Hi" with the example model, whose rewrite is accepted.
\<close>

theorem rewrite_without_latin_one_attempt_witness:
  "\<not> LATIN_RE_search [1044, 1072] \<and>
   rewrite_without_latin [1044, 1072] agent1 example_world = (Inr [1044, 1072], example_world) \<and>
   LATIN_RE_search [72, 105] \<and>
   rewrite_without_latin [72, 105] agent1 (example_world\<lparr>llm := \<lambda>k req. Inr (Some [79, 75, 32])\<rparr>)
     = (Inr [72, 105],
        example_world\<lparr>llm := \<lambda>k req. Inr (Some [79, 75, 32]),
                      llm_log := [Rewrite (system_prompt agent1) [72, 105]]\<rparr>) \<and>
   fst (rewrite_without_latin [72, 105] agent1 example_world) = Inr [1044, 1072]"
proof -
  let ?w = "example_world\<lparr>llm := \<lambda>k req. Inr (Some [79, 75, 32])\<rparr>"
  have a: "\<not> LATIN_RE_search [1044, 1072]" "LATIN_RE_search [72, 105]"
    by (simp_all add: LATIN_RE_search_def is_latin_def)
  have b: "llm ?w (length (llm_log ?w)) (Rewrite (system_prompt agent1) [72, 105]) = Inr (Some [79, 75, 32])"
    by simp
  have c: "LATIN_RE_search (strip (or_empty (Some [79, 75, 32])))"
    by (simp add: LATIN_RE_search_def is_latin_def or_empty_def strip_def lstrip_def rstrip_def isspace_def)
  have l: "llm_log ?w = []"
    by (simp add: example_world_def)
  have d: "fst (rewrite_without_latin [72, 105] agent1 example_world) = Inr [1044, 1072]"
    by (simp add: rewrite_without_latin_def chat_completion_def example_world_def example_llm_def
          LATIN_RE_search_def is_latin_def or_empty_def strip_def lstrip_def rstrip_def isspace_def Let_def)
  from a b c d l
    rewrite_without_latin_one_attempt [of "[1044, 1072]" agent1 example_world]
    rewrite_without_latin_one_attempt [of "[72, 105]" agent1 ?w]
  show ?thesis by simp
qed

text \<open>
  The expert's first turn in the example world, after \<^verbatim>\<open>history = []\<close>: the model's
  raw text "Hi" gets preface and opening phrase, has Latin letters, and the rewrite is
  accepted in its place.
\<close>

lemma example_reply:
  "generate_reply agent1 0 (Some [1058]) 350 (snd (new_list [] example_world)) =
     (Inr ([1044, 1072], 1),
      example_world\<lparr>llm_log := [Generate (system_prompt agent1) (topic_line_of (Some [1058])) [] True 350,
                                 Rewrite (system_prompt agent1)
                                   (IRINA_PREFACE @ [32] @ IRINA_FIRST_PHRASE @ [32, 72, 105])],
                    heap := (\<lambda>r. [])(0 := [], 1 := [(IRINA_NAME, [1044, 1072])]),
                    next_ref := 2\<rparr>)"
  by (simp add: generate_reply_def rewrite_without_latin_def chat_completion_def api_key_missing_def
        new_list_def list_copy_def list_append_def example_world_def example_llm_def agent1_def
        or_empty_def text_defs add_irina_preface_if_first_turn_def enforce_irina_first_phrase_def
        startswith_def LATIN_RE_search_def is_latin_def IRINA_PREFACE_def IRINA_FIRST_PHRASE_def
        Let_def fun_upd_twist)

text \<open>
  Claim C1 as stated fails: in the run above the expert's first turn is the rewrite
  "Da", which does not start with the preface and the opening phrase.
\<close>

theorem expert_first_turn_rewritten_counterexample:
  "name agent1 = IRINA_NAME \<and> heap (snd (new_list [] example_world)) 0 = [] \<and>
   fst (generate_reply agent1 0 (Some [1058]) 350 (snd (new_list [] example_world)))
     = Inr ([1044, 1072], 1) \<and>
   \<not> startswith [1044, 1072] (IRINA_PREFACE @ [32] @ IRINA_FIRST_PHRASE)"
proof (intro conjI)
  show "name agent1 = IRINA_NAME"
    by (simp add: agent1_def)
  show "heap (snd (new_list [] example_world)) 0 = []"
    by (simp add: new_list_def example_world_def)
  show "fst (generate_reply agent1 0 (Some [1058]) 350 (snd (new_list [] example_world)))
          = Inr ([1044, 1072], 1)"
    by (simp only: example_reply fst_conv)
  show "\<not> startswith [1044, 1072] (IRINA_PREFACE @ [32] @ IRINA_FIRST_PHRASE)"
    by (simp add: startswith_def IRINA_PREFACE_def)
qed

text \<open>
  The amended statement for a model that answers with a Cyrillic letter: the turn is
  preface, opening phrase and that letter, and the combination is not repeated.
\<close>

theorem expert_first_turn_opening_witness:
  "startswith (IRINA_PREFACE @ [32] @ IRINA_FIRST_PHRASE @ [32, 1058])
     (IRINA_PREFACE @ [32] @ IRINA_FIRST_PHRASE) \<and>
   \<not> startswith [1058] (IRINA_PREFACE @ [32] @ IRINA_FIRST_PHRASE) \<and>
   \<not> startswith [1058] (IRINA_FIRST_PHRASE @ [32] @ IRINA_PREFACE @ [32] @ IRINA_FIRST_PHRASE) \<and>
   \<not> startswith (IRINA_PREFACE @ [32] @ IRINA_FIRST_PHRASE @ [32, 1058])
       ((IRINA_PREFACE @ [32] @ IRINA_FIRST_PHRASE) @ [32] @ IRINA_PREFACE @ [32] @ IRINA_FIRST_PHRASE) \<and>
   \<not> LATIN_RE_search (IRINA_PREFACE @ [32] @ IRINA_FIRST_PHRASE @ [32, 1058]) \<and>
   fst (generate_reply agent1 0 (Some [1058]) 350
          (example_world\<lparr>llm := \<lambda>k req. Inr (Some [1058])\<rparr>))
     = Inr (IRINA_PREFACE @ [32] @ IRINA_FIRST_PHRASE @ [32, 1058], 0)"
proof -
  let ?w = "example_world\<lparr>llm := \<lambda>k req. Inr (Some [1058])\<rparr>"
  let ?pre = "IRINA_PREFACE @ [32] @ IRINA_FIRST_PHRASE @ [32, 1058]"
  have k: "\<not> api_key_missing ?w"
    by (simp add: api_key_missing_def example_world_def)
  have h: "heap ?w 0 = []"
    by (simp add: example_world_def)
  have n: "name agent1 = IRINA_NAME"
    by (simp add: agent1_def)
  have l: "llm ?w (length (llm_log ?w))
             (Generate (system_prompt agent1) (topic_line_of (Some [1058])) [] True 350) = Inr (Some [1058])"
    by simp
  have x: "[1058] = strip_leading_speaker_prefix (strip (or_empty (Some [1058])))"
    by (simp add: or_empty_def text_defs)
  have p: "?pre = add_irina_preface_if_first_turn (enforce_irina_first_phrase [1058])"
    by (simp add: strip_def lstrip_def rstrip_def isspace_def add_irina_preface_if_first_turn_def
          enforce_irina_first_phrase_def startswith_def IRINA_PREFACE_def IRINA_FIRST_PHRASE_def Let_def)
  have q: "\<not> LATIN_RE_search ?pre"
    by (simp add: LATIN_RE_search_def is_latin_def IRINA_PREFACE_def IRINA_FIRST_PHRASE_def)
  have r: "next_ref ?w = 0"
    by (simp add: example_world_def)
  have c: "\<not> startswith [1058] (IRINA_PREFACE @ [32] @ IRINA_FIRST_PHRASE)"
    "\<not> startswith [1058] (IRINA_FIRST_PHRASE @ [32] @ IRINA_PREFACE @ [32] @ IRINA_FIRST_PHRASE)"
    by (simp_all add: startswith_def IRINA_PREFACE_def IRINA_FIRST_PHRASE_def)
  from expert_first_turn_opening [OF k h n l x p] q r c
  show ?thesis by simp
qed

text \<open>Claim C9 on the run above: the caller's list 0 stays empty, the result is the new list 1.\<close>

theorem generate_reply_does_not_mutate_history_witness:
  "0 < next_ref (snd (new_list [] example_world)) \<and>
   heap (snd (generate_reply agent1 0 (Some [1058]) 350 (snd (new_list [] example_world)))) 0 = [] \<and>
   fst (generate_reply agent1 0 (Some [1058]) 350 (snd (new_list [] example_world)))
     = Inr ([1044, 1072], 1) \<and>
   heap (snd (generate_reply agent1 0 (Some [1058]) 350 (snd (new_list [] example_world)))) 1
     = [(IRINA_NAME, [1044, 1072])]"
proof -
  let ?w = "snd (new_list [] example_world)"
  let ?r = "generate_reply agent1 0 (Some [1058]) 350 ?w"
  have a: "0 < next_ref ?w"
    by (simp add: new_list_def)
  have h: "heap ?w 0 = []"
    by (simp add: new_list_def example_world_def)
  have n: "name agent1 = IRINA_NAME"
    by (simp add: agent1_def)
  have e: "?r = (Inr ([1044, 1072], 1), snd ?r)"
    by (simp only: example_reply snd_conv)
  have f: "fst ?r = Inr ([1044, 1072], 1)"
    by (simp only: example_reply fst_conv)
  from generate_reply_does_not_mutate_history [OF a, of agent1 "Some [1058]" 350]
  have g: "heap (snd ?r) 0 = heap ?w 0"
    and "heap (snd ?r) 1 = heap ?w 0 @ [(name agent1, [1044, 1072])]"
    using a e by blast+
  then show ?thesis
    using a f h n by simp
qed

text \<open>
  Claim C2 fails on the code. The line that consists of the preface, a space and the
  opening phrase is already correct, yet opening-phrase enforcement followed by preface
  injection returns it doubled: the line starts with the preface, not with the opening
  phrase, so enforcement prepends the phrase, and injection then prepends the preface.
  The test in \<open>add_irina_preface_if_first_turn\<close> for an already prefaced text can never
  succeed, since it is made only on texts that start with the opening phrase.
\<close>

theorem preface_doubled_on_correct_line:
  "startswith (IRINA_PREFACE @ [32] @ IRINA_FIRST_PHRASE) (IRINA_PREFACE @ [32] @ IRINA_FIRST_PHRASE) \<and>
   add_irina_preface_if_first_turn
      (enforce_irina_first_phrase (IRINA_PREFACE @ [32] @ IRINA_FIRST_PHRASE))
     = IRINA_PREFACE @ [32] @ IRINA_FIRST_PHRASE @ [32] @ IRINA_PREFACE @ [32] @ IRINA_FIRST_PHRASE \<and>
   add_irina_preface_if_first_turn
      (enforce_irina_first_phrase (IRINA_PREFACE @ [32] @ IRINA_FIRST_PHRASE))
     \<noteq> IRINA_PREFACE @ [32] @ IRINA_FIRST_PHRASE"
  by (simp add: add_irina_preface_if_first_turn_def enforce_irina_first_phrase_def startswith_def
      strip_def lstrip_def rstrip_def isspace_def IRINA_PREFACE_def IRINA_FIRST_PHRASE_def Let_def)

section \<open>Artifact file names\<close>















section \<open>The dialog loop\<close>











section \<open>The speaker introductions of the timeline\<close>

lemma ordered_intros_turn:
  assumes "ordered_intros clips"
  shows "ordered_intros (clips @ [AvatarClip img a])"
  unfolding ordered_intros_def
proof (intro allI impI)
  fix i j img' a'
  assume h: "i < length (clips @ [AvatarClip img a]) \<and> j < length (clips @ [AvatarClip img a]) \<and>
     (clips @ [AvatarClip img a]) ! i = SpeakerIntro (detect_speaker_from_filename a') \<and>
     (clips @ [AvatarClip img a]) ! j = AvatarClip img' a'"
  then have i: "i < length clips"
    by (cases "i = length clips") auto
  show "i < j"
  proof (cases "j < length clips")
    case True
    with h i assms show ?thesis
      unfolding ordered_intros_def by (auto simp add: nth_append)
  next
    case False
    with i show ?thesis by simp
  qed
qed

lemma ordered_intros_intro:
  assumes "ordered_intros clips"
    and "\<forall>img a. AvatarClip img a \<in> set clips \<longrightarrow> detect_speaker_from_filename a \<noteq> k"
  shows "ordered_intros (clips @ [SpeakerIntro k])"
  unfolding ordered_intros_def
proof (intro allI impI)
  fix i j img' a'
  assume h: "i < length (clips @ [SpeakerIntro k]) \<and> j < length (clips @ [SpeakerIntro k]) \<and>
     (clips @ [SpeakerIntro k]) ! i = SpeakerIntro (detect_speaker_from_filename a') \<and>
     (clips @ [SpeakerIntro k]) ! j = AvatarClip img' a'"
  then have j: "j < length clips"
    by (cases "j = length clips") auto
  with h have "clips ! j = AvatarClip img' a'"
    by (simp add: nth_append)
  with nth_mem [OF j] have m: "AvatarClip img' a' \<in> set clips"
    by simp
  show "i < j"
  proof (cases "i < length clips")
    case True
    with h j assms(1) show ?thesis
      unfolding ordered_intros_def by (auto simp add: nth_append)
  next
    case False
    with h have "k = detect_speaker_from_filename a'"
      by (auto simp add: nth_append)
    with m assms(2) show ?thesis by blast
  qed
qed

lemma assembly_invariant_turn:
  assumes "assembly_invariant introduced clips"
    and "introduced (detect_speaker_from_filename a) \<noteq> Some False"
  shows "assembly_invariant introduced (clips @ [AvatarClip img a])"
  using assms ordered_intros_turn [of clips img a]
  by (auto simp add: assembly_invariant_def)

lemma assembly_invariant_intro:
  assumes "assembly_invariant introduced clips" and "introduced k = Some False"
  shows "assembly_invariant (introduced(k \<mapsto> True)) (clips @ [SpeakerIntro k])"
proof -
  from assms have n: "SpeakerIntro k \<notin> set clips"
    and t: "\<forall>img a. AvatarClip img a \<in> set clips \<longrightarrow> detect_speaker_from_filename a \<noteq> k"
    and o: "ordered_intros clips"
    by (auto simp add: assembly_invariant_def)
  from n have "count_list clips (SpeakerIntro k) = 0"
    by (simp add: count_list_0_iff)
  then have c: "\<forall>k'. count_list (clips @ [SpeakerIntro k]) (SpeakerIntro k') \<le> 1"
    using assms(1) by (auto simp add: assembly_invariant_def)
  have a: "\<forall>k'. (introduced(k \<mapsto> True)) k' = Some False \<longrightarrow>
        SpeakerIntro k' \<notin> set (clips @ [SpeakerIntro k]) \<and>
        (\<forall>img a. AvatarClip img a \<in> set (clips @ [SpeakerIntro k]) \<longrightarrow>
           detect_speaker_from_filename a \<noteq> k')"
    using assms(1) by (auto simp add: assembly_invariant_def)
  from a c ordered_intros_intro [OF o t] show ?thesis
    unfolding assembly_invariant_def by blast
qed

lemma assemble_loop_invariant:
  assumes "assembly_invariant introduced clips"
  shows "\<exists>introduced'. assembly_invariant introduced' (snd (assemble_loop env files introduced clips))"
  using assms
proof (induction files arbitrary: introduced clips)
  case Nil
  then show ?case by auto
next
  case (Cons f files)
  obtain idx audio_name where f: "f = (idx, audio_name)" by (cases f)
  let ?k = "detect_speaker_from_filename audio_name"
  show ?case
  proof (cases "avatar_map ?k")
    case None
    with Cons.IH [OF Cons.prems] show ?thesis
      by (simp add: f)
  next
    case (Some avatar_path)
    show ?thesis
    proof (cases "duration_ok env idx audio_name")
      case False
      with Some Cons.IH [OF Cons.prems] show ?thesis
        by (simp add: f)
    next
      case d: True
      show ?thesis
      proof (cases "introduced ?k = Some False")
        case False
        let ?clips = "if avatar_clip_ok env idx audio_name
                      then clips @ [AvatarClip avatar_path audio_name] else clips"
        have "assembly_invariant introduced ?clips"
          using Cons.prems False by (simp add: assembly_invariant_turn)
        from Cons.IH [OF this]
        obtain introduced' where
          r: "assembly_invariant introduced' (snd (assemble_loop env files introduced ?clips))"
          by blast
        have "assemble_loop env (f # files) introduced clips = assemble_loop env files introduced ?clips"
          using Some d False by (simp add: f Let_def)
        with r show ?thesis
          by auto
      next
        case True
        show ?thesis
        proof (cases "speaker_intro_ok env idx ?k")
          case False
          with Some d True Cons.prems show ?thesis
            by (auto simp add: f)
        next
          case s: True
          let ?intr = "introduced(?k \<mapsto> True)"
          let ?c1 = "clips @ [SpeakerIntro ?k]"
          let ?clips = "if avatar_clip_ok env idx audio_name
                        then ?c1 @ [AvatarClip avatar_path audio_name] else ?c1"
          have i1: "assembly_invariant ?intr ?c1"
            using Cons.prems True by (rule assembly_invariant_intro)
          have "assembly_invariant ?intr ?clips"
            using i1 by (simp add: assembly_invariant_turn del: append_assoc)
          from Cons.IH [OF this]
          obtain introduced' where
            r: "assembly_invariant introduced' (snd (assemble_loop env files ?intr ?clips))"
            by blast
          have "assemble_loop env (f # files) introduced clips = assemble_loop env files ?intr ?clips"
            using Some d True s by (simp add: f Let_def)
          with r show ?thesis
            by auto
        qed
      qed
    qed
  qed
qed

lemma initial_assembly_invariant:
  "assembly_invariant [IRINA_KEY \<mapsto> False, ALEXEY_KEY \<mapsto> False] [TopicIntro topic]"
  by (auto simp add: assembly_invariant_def ordered_intros_def nth_Cons')

lemma if_chain_Some:
  "(if a then None else if b then None else if c then None else if d then None else X) = Some y
     \<Longrightarrow> X = Some y"
  by (simp split: if_splits)

lemma video_main_clips:
  assumes "video_main env = Some clips"
  shows "\<exists>files. clips = snd (assemble_loop env files
           [IRINA_KEY \<mapsto> False, ALEXEY_KEY \<mapsto> False] [TopicIntro (TOPIC env)])"
proof -
  let ?fs0 = "sort (filter starts_with_digits (sort (mp3_names env)))"
  let ?fs = "if MAX_AUDIO_FILES env > 0 then take (nat (MAX_AUDIO_FILES env)) ?fs0 else ?fs0"
  let ?r = "assemble_loop env (zip [1 ..< Suc (length ?fs)] ?fs)
              [IRINA_KEY \<mapsto> False, ALEXEY_KEY \<mapsto> False] [TopicIntro (TOPIC env)]"
  from if_chain_Some [OF assms [unfolded video_main_def Let_def]]
  have "(case ?r of (False, clips) \<Rightarrow> None
         | (True, clips) \<Rightarrow> if clips = [] then None else Some clips) = Some clips" .
  then have "clips = snd ?r"
    by (cases ?r) (auto split: bool.splits if_splits)
  then show ?thesis by blast
qed

text \<open>
  Claim C7. In every run of the assembler, whatever the audio files are and whichever
  calls fail, the clips appended by the loop of \<^verbatim>\<open>main\<close> hold at most one introduction
  clip for each speaker identity, and every introduction of an identity stands strictly
  before every turn clip of that identity, hence before the first one. This holds of
  the clips at the end of the loop (also when \<^verbatim>\<open>main\<close> returns from inside it), and so
  of every clip sequence that \<^verbatim>\<open>main\<close> hands to the renderer.
\<close>

theorem speaker_intro_once_and_first:
  "(let clips = snd (assemble_loop env files [IRINA_KEY \<mapsto> False, ALEXEY_KEY \<mapsto> False]
                  [TopicIntro topic])
    in (\<forall>k. count_list clips (SpeakerIntro k) \<le> 1) \<and> ordered_intros clips) \<and>
   (\<forall>clips. video_main env = Some clips \<longrightarrow>
      (\<forall>k. count_list clips (SpeakerIntro k) \<le> 1) \<and> ordered_intros clips)"
proof -
  have a: "(\<forall>k. count_list (snd (assemble_loop env fs [IRINA_KEY \<mapsto> False, ALEXEY_KEY \<mapsto> False]
                  [TopicIntro t])) (SpeakerIntro k) \<le> 1) \<and>
      ordered_intros (snd (assemble_loop env fs [IRINA_KEY \<mapsto> False, ALEXEY_KEY \<mapsto> False]
                  [TopicIntro t]))" for fs t
    using assemble_loop_invariant [OF initial_assembly_invariant, of env fs t]
    by (auto simp add: assembly_invariant_def)
  have b: "\<forall>clips. video_main env = Some clips \<longrightarrow>
      (\<forall>k. count_list clips (SpeakerIntro k) \<le> 1) \<and> ordered_intros clips"
  proof (intro allI impI)
    fix clips
    assume "video_main env = Some clips"
    from video_main_clips [OF this]
    obtain fs where "clips = snd (assemble_loop env fs [IRINA_KEY \<mapsto> False, ALEXEY_KEY \<mapsto> False]
        [TopicIntro (TOPIC env)])"
      by blast
    with a [of fs "TOPIC env"]
    show "(\<forall>k. count_list clips (SpeakerIntro k) \<le> 1) \<and> ordered_intros clips"
      by simp
  qed
  from a [of files topic] b show ?thesis
    by (simp add: Let_def)
qed

text \<open>The clip sequence that \<^verbatim>\<open>main\<close> builds from the example directory.\<close>

lemma example_video:
  "video_main example_env =
     Some [TopicIntro [1058],
           SpeakerIntro IRINA_KEY,
           AvatarClip [105, 114, 105, 110, 97, 46, 106, 112, 103] [48, 48, 49, 1080, 1088, 1080, 1085, 1072],
           SpeakerIntro ALEXEY_KEY,
           AvatarClip [97, 108, 101, 120, 101, 121, 46, 106, 112, 103]
             [48, 48, 50, 1072, 1083, 1077, 1082, 1089, 1077, 1081],
           AvatarClip [105, 114, 105, 110, 97, 46, 106, 112, 103] [48, 48, 51, 1080, 1088, 1080, 1085, 1072]]"
proof -
  have d: "starts_with_digits [48, 48, 51, 1080, 1088, 1080, 1085, 1072]"
    "starts_with_digits [48, 48, 50, 1072, 1083, 1077, 1082, 1089, 1077, 1081]"
    "starts_with_digits [48, 48, 49, 1080, 1088, 1080, 1085, 1072]"
    "\<not> starts_with_digits [120]"
    by (simp_all add: starts_with_digits_def isdigit_def isdigit_cp_def DIGIT_RANGES_def)
  have k: "detect_speaker_from_filename [48, 48, 51, 1080, 1088, 1080, 1085, 1072] = IRINA_KEY"
    "detect_speaker_from_filename [48, 48, 50, 1072, 1083, 1077, 1082, 1089, 1077, 1081] = ALEXEY_KEY"
    "detect_speaker_from_filename [48, 48, 49, 1080, 1088, 1080, 1085, 1072] = IRINA_KEY"
    by (simp_all add: detect_speaker_from_filename_def contains_def lower_def lower_cp_def sublist_code)
  have s: "sort (mp3_names example_env) =
      [[48, 48, 49, 1080, 1088, 1080, 1085, 1072],
       [48, 48, 50, 1072, 1083, 1077, 1082, 1089, 1077, 1081],
       [48, 48, 51, 1080, 1088, 1080, 1085, 1072], [120]]"
    by (simp add: example_env_def)
  have s2: "sort [[48, 48, 49, 1080, 1088, 1080, 1085, 1072],
       [48, 48, 50, 1072, 1083, 1077, 1082, 1089, 1077, 1081],
       [48, 48, 51, 1080, 1088, 1080, 1085, 1072 :: nat]] =
      [[48, 48, 49, 1080, 1088, 1080, 1085, 1072],
       [48, 48, 50, 1072, 1083, 1077, 1082, 1089, 1077, 1081],
       [48, 48, 51, 1080, 1088, 1080, 1085, 1072]]"
    by simp
  have u: "[1 ..< Suc 3] = [1, 2, 3]"
    by (simp add: upt_rec)
  have m: "avatar_map IRINA_KEY = Some [105, 114, 105, 110, 97, 46, 106, 112, 103]"
    "avatar_map ALEXEY_KEY = Some [97, 108, 101, 120, 101, 121, 46, 106, 112, 103]"
    "ALEXEY_KEY \<noteq> IRINA_KEY"
    by (simp_all add: avatar_map_def IRINA_KEY_def ALEXEY_KEY_def)
  have e: "audio_dir_exists example_env" "MAX_AUDIO_FILES example_env = 0" "TOPIC example_env = [1058]"
    "avatar_exists example_env = (\<lambda>k. True)" "topic_intro_ok example_env"
    "duration_ok example_env = (\<lambda>idx a. True)" "speaker_intro_ok example_env = (\<lambda>idx k. True)"
    "avatar_clip_ok example_env = (\<lambda>idx a. True)"
    by (simp_all add: example_env_def)
  show ?thesis
    by (simp add: video_main_def s d s2 u k m e Let_def)
qed

text \<open>
  The theorem on that run: the expert is introduced before her first turn, the skeptic
  before his, and the expert's second turn gets no second introduction.
\<close>

theorem speaker_intro_once_and_first_witness:
  "video_main example_env =
     Some [TopicIntro [1058],
           SpeakerIntro IRINA_KEY,
           AvatarClip [105, 114, 105, 110, 97, 46, 106, 112, 103] [48, 48, 49, 1080, 1088, 1080, 1085, 1072],
           SpeakerIntro ALEXEY_KEY,
           AvatarClip [97, 108, 101, 120, 101, 121, 46, 106, 112, 103]
             [48, 48, 50, 1072, 1083, 1077, 1082, 1089, 1077, 1081],
           AvatarClip [105, 114, 105, 110, 97, 46, 106, 112, 103] [48, 48, 51, 1080, 1088, 1080, 1085, 1072]] \<and>
   detect_speaker_from_filename [48, 48, 51, 1080, 1088, 1080, 1085, 1072] = IRINA_KEY \<and>
   count_list [TopicIntro [1058],
           SpeakerIntro IRINA_KEY,
           AvatarClip [105, 114, 105, 110, 97, 46, 106, 112, 103] [48, 48, 49, 1080, 1088, 1080, 1085, 1072],
           SpeakerIntro ALEXEY_KEY,
           AvatarClip [97, 108, 101, 120, 101, 121, 46, 106, 112, 103]
             [48, 48, 50, 1072, 1083, 1077, 1082, 1089, 1077, 1081],
           AvatarClip [105, 114, 105, 110, 97, 46, 106, 112, 103] [48, 48, 51, 1080, 1088, 1080, 1085, 1072]]
      (SpeakerIntro IRINA_KEY) \<le> 1 \<and>
   ordered_intros [TopicIntro [1058],
           SpeakerIntro IRINA_KEY,
           AvatarClip [105, 114, 105, 110, 97, 46, 106, 112, 103] [48, 48, 49, 1080, 1088, 1080, 1085, 1072],
           SpeakerIntro ALEXEY_KEY,
           AvatarClip [97, 108, 101, 120, 101, 121, 46, 106, 112, 103]
             [48, 48, 50, 1072, 1083, 1077, 1082, 1089, 1077, 1081],
           AvatarClip [105, 114, 105, 110, 97, 46, 106, 112, 103] [48, 48, 51, 1080, 1088, 1080, 1085, 1072]]"
proof -
  have k: "detect_speaker_from_filename [48, 48, 51, 1080, 1088, 1080, 1085, 1072] = IRINA_KEY"
    by (simp add: detect_speaker_from_filename_def contains_def lower_def lower_cp_def sublist_code)
  from speaker_intro_once_and_first [of example_env "[]" "[]"] example_video k
  show ?thesis by blast
qed

end
